theory Spec2Isabelle
  imports Complex_Main
begin

section \<open>Meeting-room booking: the reservation service and its handler\<close>

text \<open>
  The development embeds \<^verbatim>\<open>ReservationService\<close> (CreateReservation,
  CalculateReservationCost, UpdateReservationStatus, GetReservationByID) and the
  two handlers of \<^verbatim>\<open>ReservationHandler\<close> that classify its errors.

  Conventions of the embedding:
  \<^item> a \<^verbatim>\<open>uuid.UUID\<close> is held in its canonical text form, the one \<^verbatim>\<open>%v\<close> prints;
  \<^item> a \<^verbatim>\<open>time.Time\<close> is an instant counted in nanoseconds, a \<^verbatim>\<open>time.Duration\<close> a
    64-bit nanosecond count, and \<^verbatim>\<open>Time.Sub\<close> saturates as Go's does;
  \<^item> a \<^verbatim>\<open>float64\<close> is the real number it denotes, and every \<^verbatim>\<open>float64\<close> operation
    (sum, product, quotient, conversion from an integer) rounds its exact result
    to the nearest value with a 53-bit significand, ties to even, each operation
    on its own (no fused multiply-add); overflow, subnormal numbers and the
    rounding of \<^verbatim>\<open>DECIMAL(10,2)\<close> columns are not represented, and a money column
    holds the \<^verbatim>\<open>float64\<close> scanned from it;
  \<^item> a Go \<^verbatim>\<open>error\<close> is its message, so a service returns \<open>string + 'a\<close>;
  \<^item> a table is the list of its rows, a query a filter over that list, and the
    transaction either commits the rows it wrote or leaves the database as it was;
  \<^item> what the program reads from outside (the clock, the identifier the database
    generates, a failing database call) is a field of the environment \<open>env\<close>.
\<close>

subsection \<open>float64 arithmetic\<close>

definition round_half_even :: "real \<Rightarrow> int" where
  \<comment> \<open>the nearest integer, the even one of two equally near\<close>
  "round_half_even y =
     (let f = \<lfloor>y\<rfloor>; d = y - of_int f
      in if d < 1 / 2 then f else if d > 1 / 2 then f + 1 else if even f then f else f + 1)"

definition float64 :: "real \<Rightarrow> real" where
  \<comment> \<open>rounding to binary64: with \<open>2 ^ k \<le> \<bar>x\<bar> < 2 ^ (k + 1)\<close> the result is the nearest
      multiple of \<open>2 ^ (k - 52)\<close>\<close>
  "float64 x =
     (if x = 0 then 0
      else let e = \<lfloor>log 2 \<bar>x\<bar>\<rfloor> - 52
           in of_int (round_half_even (x / 2 powr of_int e)) * 2 powr of_int e)"

definition fadd :: "real \<Rightarrow> real \<Rightarrow> real" where
  "fadd x y = float64 (x + y)"

definition fmul :: "real \<Rightarrow> real \<Rightarrow> real" where
  "fmul x y = float64 (x * y)"

definition fdiv :: "real \<Rightarrow> real \<Rightarrow> real" where
  "fdiv x y = float64 (x / y)"

definition float64_of_int :: "int \<Rightarrow> real" where
  \<comment> \<open>the conversion \<^verbatim>\<open>float64(n)\<close> of an integer\<close>
  "float64_of_int n = float64 (of_int n)"

definition trunc_div :: "int \<Rightarrow> int \<Rightarrow> int" where
  \<comment> \<open>Go's integer \<^verbatim>\<open>/\<close>, truncated toward zero\<close>
  "trunc_div a b = sgn a * sgn b * (\<bar>a\<bar> div \<bar>b\<bar>)"

definition trunc_mod :: "int \<Rightarrow> int \<Rightarrow> int" where
  \<comment> \<open>Go's integer \<^verbatim>\<open>%\<close>, with the sign of the dividend\<close>
  "trunc_mod a b = sgn a * (\<bar>a\<bar> mod \<bar>b\<bar>)"

subsection \<open>Time\<close>

type_synonym uuid = string
type_synonym time = int
type_synonym duration = int

definition Nanosecond :: duration where "Nanosecond = 1"
definition Second :: duration where "Second = 1000000000 * Nanosecond"
definition Minute :: duration where "Minute = 60 * Second"
definition Hour :: duration where "Hour = 60 * Minute"

definition minDuration :: duration where "minDuration = - (2 ^ 63)"
definition maxDuration :: duration where "maxDuration = 2 ^ 63 - 1"

definition Before :: "time \<Rightarrow> time \<Rightarrow> bool" where
  "Before t u = (t < u)"

definition After :: "time \<Rightarrow> time \<Rightarrow> bool" where
  "After t u = (t > u)"

definition Sub :: "time \<Rightarrow> time \<Rightarrow> duration" where
  \<comment> \<open>\<^verbatim>\<open>t.Sub(u)\<close>: the difference, clamped to the range of a Duration.\<close>
  "Sub t u = (if t - u > maxDuration then maxDuration
              else if t - u < minDuration then minDuration
              else t - u)"

definition Hours :: "duration \<Rightarrow> real" where
  \<comment> \<open>\<^verbatim>\<open>d.Hours()\<close>: \<^verbatim>\<open>hour := d / Hour; nsec := d % Hour;
      return float64(hour) + float64(nsec)/(60*60*1e9)\<close>\<close>
  "Hours d =
     fadd (float64_of_int (trunc_div d Hour))
          (fdiv (float64_of_int (trunc_mod d Hour)) (60 * 60 * 1000000000))"

subsection \<open>Formatting and string search\<close>

definition digit :: "nat \<Rightarrow> char" where
  "digit d = ''0123456789'' ! d"

fun digits :: "nat \<Rightarrow> string" where
  "digits n = (if n < 10 then [digit n] else digits (n div 10) @ [digit (n mod 10)])"

declare digits.simps [simp del]

definition fmt_d :: "int \<Rightarrow> string" where
  \<comment> \<open>the verb \<^verbatim>\<open>%d\<close> of \<^verbatim>\<open>fmt.Errorf\<close>\<close>
  "fmt_d i = (if i < 0 then CHR ''-'' # digits (nat (- i)) else digits (nat i))"

fun has_prefix :: "string \<Rightarrow> string \<Rightarrow> bool" where
  "has_prefix s [] = True"
| "has_prefix [] (c # p) = False"
| "has_prefix (d # s) (c # p) = (d = c \<and> has_prefix s p)"

fun Contains :: "string \<Rightarrow> string \<Rightarrow> bool" where
  \<comment> \<open>\<^verbatim>\<open>strings.Contains(s, substr)\<close>\<close>
  "Contains [] sub = (sub = [])"
| "Contains (c # s) sub = (has_prefix (c # s) sub \<or> Contains s sub)"

subsection \<open>Tables\<close>

record room =
  room_id :: uuid
  room_name :: string
  room_capacity :: int
  room_price_per_hour :: real
  room_status :: string

record user =
  user_id :: uuid
  user_username :: string

record snack =
  snack_id :: uuid
  snack_name :: string
  snack_category :: string
  snack_price :: real

record reservation =
  res_id :: uuid
  res_room_id :: uuid
  res_user_id :: uuid
  res_start_time :: time
  res_end_time :: time
  res_visitor_count :: int
  res_price :: real
  res_status :: string
  res_created_at :: time
  res_updated_at :: time

record reservation_snack =
  rs_reservation_id :: uuid
  rs_snack_id :: uuid
  rs_quantity :: int
  rs_price :: real

record database =
  rooms :: "room list"
  users :: "user list"
  snacks :: "snack list"
  reservations :: "reservation list"
  reservation_snacks :: "reservation_snack list"

subsection \<open>The environment of a call\<close>

datatype db_call =
    Begin | SelectRoom | CountOverlap | SelectSnacks | ScanSnack | RowsErr
  | InsertReservation | InsertReservationSnack | UpdateStatus | RowsAffected
  | SelectReservation | SelectReservationSnacks | Commit

record env =
  now :: time
  now_done :: time
  db_now :: time
  gen_id :: uuid
  fault :: "db_call \<Rightarrow> string option"

text \<open>
  \<open>now\<close> is \<^verbatim>\<open>time.Now()\<close> at the start of a call and \<open>now_done\<close> the reading taken
  when the response is built; \<open>db_now\<close> is the database's \<^verbatim>\<open>NOW()\<close>; \<open>gen_id\<close> is the
  identifier \<^verbatim>\<open>uuid_generate_v4()\<close> gives the inserted reservation; \<open>fault c\<close> is the
  driver's error text when the database call \<open>c\<close> fails.
\<close>

definition failed :: "env \<Rightarrow> db_call \<Rightarrow> bool" where
  \<comment> \<open>\<^verbatim>\<open>err != nil\<close> after the database call \<open>c\<close>\<close>
  "failed ev c = (fault ev c \<noteq> None)"

definition Errorf :: "string \<Rightarrow> env \<Rightarrow> db_call \<Rightarrow> string" where
  \<comment> \<open>\<^verbatim>\<open>fmt.Errorf("<prefix>%v", err)\<close> for the error of the database call \<open>c\<close>\<close>
  "Errorf prefix ev c = prefix @ (case fault ev c of Some m \<Rightarrow> m | None \<Rightarrow> [])"

definition no_fault :: "env \<Rightarrow> bool" where
  "no_fault ev = (\<forall>c. \<not> failed ev c)"

subsection \<open>Requests and responses\<close>

record snack_line =
  SnackID :: uuid
  Quantity :: int

record CreateReservationRequest =
  RoomID :: uuid
  UserID :: uuid
  StartTime :: time
  EndTime :: time
  VisitorCount :: int
  Snacks :: "snack_line list"

record CreateReservationResponse =
  cr_ReservationID :: uuid
  cr_Status :: string
  cr_TotalCost :: real
  cr_CreatedAt :: time

record ReservationCalculationRequest =
  calc_RoomID :: uuid
  calc_Snacks :: "snack_line list"
  calc_StartTime :: time
  calc_EndTime :: time

record room_cost =
  rc_ID :: uuid
  rc_Name :: string
  rc_PricePerHour :: real
  rc_TotalHours :: real
  rc_TotalCost :: real

record snack_item =
  si_ID :: uuid
  si_Name :: string
  si_Category :: string
  si_Price :: real
  si_Quantity :: int
  si_Subtotal :: real

record ReservationCalculationResponse =
  calc_Room :: room_cost
  calc_SnackItems :: "snack_item list"
  calc_TotalCost :: real

record UpdateReservationStatusRequest =
  upd_ReservationID :: uuid
  upd_Status :: string

record RoomInfo =
  ri_Capacity :: int
  ri_PricePerHour :: real

record ReservationEvent =
  ev_ID :: uuid
  ev_RoomID :: uuid
  ev_RoomName :: string
  ev_RoomDetails :: RoomInfo
  ev_UserID :: uuid
  ev_Username :: string
  ev_StartTime :: time
  ev_EndTime :: time
  ev_DurationHours :: real
  ev_VisitorCount :: int
  ev_Price :: real
  ev_Status :: string

record detail_room =
  dr_ID :: uuid
  dr_Name :: string
  dr_Capacity :: int
  dr_PricePerHour :: real

record detail_user =
  du_ID :: uuid
  du_Username :: string

record ReservationDetailResponse =
  det_ID :: uuid
  det_Status :: string
  det_StartTime :: time
  det_EndTime :: time
  det_VisitorCount :: int
  det_Price :: real
  det_CreatedAt :: time
  det_UpdatedAt :: time
  det_Room :: detail_room
  det_User :: detail_user
  det_Snacks :: "snack_item list"
  det_TotalCost :: real

definition IsValid :: "string \<Rightarrow> bool" where
  \<comment> \<open>\<^verbatim>\<open>ReservationStatus.IsValid\<close>\<close>
  "IsValid s = (s = ''pending'' \<or> s = ''confirmed'' \<or> s = ''cancelled'' \<or> s = ''completed'')"

subsection \<open>ReservationService.CreateReservation\<close>

type_synonym 'a result = "(string + 'a) \<times> database"

definition overlap_clause :: "time \<Rightarrow> time \<Rightarrow> time \<Rightarrow> time \<Rightarrow> bool" where
  \<comment> \<open>the time condition of the overlap query; \<open>S\<close>, \<open>E\<close> are its parameters
      \<^verbatim>\<open>$2\<close>, \<^verbatim>\<open>$3\<close> and \<open>s\<close>, \<open>e\<close> the row's \<^verbatim>\<open>start_time\<close>, \<^verbatim>\<open>end_time\<close>\<close>
  "overlap_clause S E s e =
     ((s \<le> S \<and> e > S) \<or> (s < E \<and> e \<ge> E) \<or> (s \<ge> S \<and> e \<le> E))"

definition overlapping_rows :: "database \<Rightarrow> uuid \<Rightarrow> time \<Rightarrow> time \<Rightarrow> reservation list" where
  \<comment> \<open>the rows the overlap query counts\<close>
  "overlapping_rows db rid S E =
     filter (\<lambda>r. res_room_id r = rid \<and> res_status r \<noteq> ''cancelled''
                \<and> overlap_clause S E (res_start_time r) (res_end_time r))
            (reservations db)"

definition overlappingCount :: "database \<Rightarrow> uuid \<Rightarrow> time \<Rightarrow> time \<Rightarrow> nat" where
  "overlappingCount db rid S E = length (overlapping_rows db rid S E)"

definition available_room :: "database \<Rightarrow> uuid \<Rightarrow> room option" where
  \<comment> \<open>\<^verbatim>\<open>SELECT ... FROM rooms WHERE id = $1 AND status = 'available'\<close>, first row\<close>
  "available_room db rid =
     find (\<lambda>r. room_id r = rid \<and> room_status r = ''available'') (rooms db)"

definition select_snacks :: "database \<Rightarrow> snack_line list \<Rightarrow> snack list" where
  \<comment> \<open>\<^verbatim>\<open>SELECT ... FROM snacks WHERE id = ANY($1)\<close>, with the request's snack ids\<close>
  "select_snacks db ls = filter (\<lambda>s. snack_id s \<in> set (map SnackID ls)) (snacks db)"

record ordered_snack =
  os_ID :: uuid
  os_Name :: string
  os_Price :: real
  os_Quantity :: int

fun order_snacks ::
  "snack_line list \<Rightarrow> snack list \<Rightarrow> real \<times> ordered_snack list \<Rightarrow> real \<times> ordered_snack list"
where
  \<comment> \<open>the loop over the selected snack rows: the first request line that names the
      row's snack gives the quantity\<close>
  "order_snacks ls [] acc = acc"
| "order_snacks ls (s # rows) (totalSnackCost, acc) =
     (case find (\<lambda>l. SnackID l = snack_id s) ls of
        None \<Rightarrow> order_snacks ls rows (totalSnackCost, acc)
      | Some l \<Rightarrow>
          order_snacks ls rows
            (fadd totalSnackCost (fmul (snack_price s) (float64_of_int (Quantity l))),
             acc @ [\<lparr>os_ID = snack_id s, os_Name = snack_name s,
                     os_Price = snack_price s, os_Quantity = Quantity l\<rparr>]))"

definition snack_order_row :: "uuid \<Rightarrow> ordered_snack \<Rightarrow> reservation_snack" where
  \<comment> \<open>the row of \<^verbatim>\<open>INSERT INTO reservation_snacks\<close>\<close>
  "snack_order_row reservationID sn =
     \<lparr>rs_reservation_id = reservationID, rs_snack_id = os_ID sn,
      rs_quantity = os_Quantity sn, rs_price = os_Price sn\<rparr>"

definition reservation_row :: "env \<Rightarrow> CreateReservationRequest \<Rightarrow> real \<Rightarrow> reservation" where
  \<comment> \<open>the row of \<^verbatim>\<open>INSERT INTO reservations\<close>; id and timestamps are the column defaults\<close>
  "reservation_row ev req totalCost =
     \<lparr>res_id = gen_id ev, res_room_id = RoomID req, res_user_id = UserID req,
      res_start_time = StartTime req, res_end_time = EndTime req,
      res_visitor_count = VisitorCount req, res_price = totalCost,
      res_status = ''pending'', res_created_at = db_now ev, res_updated_at = db_now ev\<rparr>"

definition create_rows ::
  "env \<Rightarrow> CreateReservationRequest \<Rightarrow> database \<Rightarrow> real \<Rightarrow> CreateReservationResponse result"
where
  \<comment> \<open>the second half of CreateReservation, from the cost calculation on;
      \<open>pricePerHour\<close> is the price scanned from the room row\<close>
  "create_rows ev req db pricePerHour =
     (let hours = Hours (Sub (EndTime req) (StartTime req));
          roomCost = fmul pricePerHour hours;
          rows = select_snacks db (Snacks req);
          (totalSnackCost, ordered) = order_snacks (Snacks req) rows (0, []);
          totalCost = fadd roomCost totalSnackCost;
          reservationID = gen_id ev;
          tx = db\<lparr>reservations := reservations db @ [reservation_row ev req totalCost]\<rparr>;
          tx' = tx\<lparr>reservation_snacks :=
                     reservation_snacks tx @ map (snack_order_row reservationID) ordered\<rparr>
      in
      if failed ev SelectSnacks then
        (Inl (Errorf ''error querying snacks: '' ev SelectSnacks), db)
      else if rows \<noteq> [] \<and> failed ev ScanSnack then
        (Inl (Errorf ''error scanning snack: '' ev ScanSnack), db)
      else if failed ev RowsErr then
        (Inl (Errorf ''error iterating snacks: '' ev RowsErr), db)
      else if failed ev InsertReservation then
        (Inl (Errorf ''error creating reservation: '' ev InsertReservation), db)
      else if ordered \<noteq> [] \<and> failed ev InsertReservationSnack then
        (Inl (Errorf ''error creating snack order: '' ev InsertReservationSnack), db)
      else if failed ev Commit then
        (Inl (Errorf ''error committing transaction: '' ev Commit), db)
      else
        (Inr \<lparr>cr_ReservationID = reservationID, cr_Status = ''pending'',
              cr_TotalCost = totalCost, cr_CreatedAt = now_done ev\<rparr>, tx'))"

definition CreateReservation ::
  "env \<Rightarrow> CreateReservationRequest \<Rightarrow> database \<Rightarrow> CreateReservationResponse result"
where
  "CreateReservation ev req db =
     (if Before (StartTime req) (now ev) then
        (Inl ''reservation start time must be in the future'', db)
      else if \<not> After (EndTime req) (StartTime req) then
        (Inl ''reservation end time must be after start time'', db)
      else if Sub (EndTime req) (StartTime req) < 30 * Minute then
        (Inl ''reservation must be at least 30 minutes long'', db)
      else if Sub (EndTime req) (StartTime req) > 24 * Hour then
        (Inl ''reservation cannot exceed 24 hours'', db)
      else if failed ev Begin then
        (Inl (Errorf ''error starting transaction: '' ev Begin), db)
      else if failed ev SelectRoom then
        (Inl (Errorf ''error checking room: '' ev SelectRoom), db)
      else
        (case available_room db (RoomID req) of
           None \<Rightarrow> (Inl ''room not found or inactive'', db)
         | Some rm \<Rightarrow>
             if VisitorCount req > room_capacity rm then
               (Inl (''visitor count exceeds room capacity of '' @ fmt_d (room_capacity rm)), db)
             else if failed ev CountOverlap then
               (Inl (Errorf ''error checking overlapping reservations: '' ev CountOverlap), db)
             else if overlappingCount db (RoomID req) (StartTime req) (EndTime req) > 0 then
               (Inl ''room is already booked for the selected time period'', db)
             else create_rows ev req db (room_price_per_hour rm)))"

subsection \<open>ReservationService.CalculateReservationCost\<close>

record priced_snack =
  ps_ID :: uuid
  ps_Name :: string
  ps_Category :: string
  ps_Price :: real
  ps_Quantity :: int

fun price_snacks :: "snack_line list \<Rightarrow> snack list \<Rightarrow> priced_snack list \<Rightarrow> priced_snack list" where
  \<comment> \<open>the loop over the selected snack rows\<close>
  "price_snacks ls [] acc = acc"
| "price_snacks ls (s # rows) acc =
     (case find (\<lambda>l. SnackID l = snack_id s) ls of
        None \<Rightarrow> price_snacks ls rows acc
      | Some l \<Rightarrow>
          price_snacks ls rows
            (acc @ [\<lparr>ps_ID = snack_id s, ps_Name = snack_name s, ps_Category = snack_category s,
                     ps_Price = snack_price s, ps_Quantity = Quantity l\<rparr>]))"

fun add_snack_costs ::
  "priced_snack list \<Rightarrow> ReservationCalculationResponse \<Rightarrow> ReservationCalculationResponse"
where
  \<comment> \<open>the loop that appends one item per snack and adds its subtotal to the total\<close>
  "add_snack_costs [] response = response"
| "add_snack_costs (sn # sns) response =
     (let subtotal = fmul (ps_Price sn) (float64_of_int (ps_Quantity sn))
      in add_snack_costs sns
           (response\<lparr>calc_SnackItems := calc_SnackItems response @
                        [\<lparr>si_ID = ps_ID sn, si_Name = ps_Name sn, si_Category = ps_Category sn,
                          si_Price = ps_Price sn, si_Quantity = ps_Quantity sn,
                          si_Subtotal = subtotal\<rparr>],
                      calc_TotalCost := fadd (calc_TotalCost response) subtotal\<rparr>))"

definition CalculateReservationCost ::
  "env \<Rightarrow> ReservationCalculationRequest \<Rightarrow> database \<Rightarrow> string + ReservationCalculationResponse"
where
  "CalculateReservationCost ev req db =
     (if Before (calc_StartTime req) (now ev) then
        Inl ''reservation start time must be in the future''
      else if \<not> After (calc_EndTime req) (calc_StartTime req) then
        Inl ''reservation end time must be after start time''
      else if Sub (calc_EndTime req) (calc_StartTime req) < 30 * Minute then
        Inl ''reservation must be at least 30 minutes long''
      else if Sub (calc_EndTime req) (calc_StartTime req) > 24 * Hour then
        Inl ''reservation cannot exceed 24 hours''
      else if failed ev Begin then
        Inl (Errorf ''error starting transaction: '' ev Begin)
      else if failed ev SelectRoom then
        Inl (Errorf ''error querying room: '' ev SelectRoom)
      else
        (case available_room db (calc_RoomID req) of
           None \<Rightarrow> Inl ''room not found or inactive''
         | Some rm \<Rightarrow>
             let hours = Hours (Sub (calc_EndTime req) (calc_StartTime req));
                 roomCost = fmul (room_price_per_hour rm) hours;
                 rows = select_snacks db (calc_Snacks req);
                 sns = price_snacks (calc_Snacks req) rows [];
                 response = add_snack_costs sns
                   \<lparr>calc_Room = \<lparr>rc_ID = room_id rm, rc_Name = room_name rm,
                                 rc_PricePerHour = room_price_per_hour rm,
                                 rc_TotalHours = hours, rc_TotalCost = roomCost\<rparr>,
                    calc_SnackItems = [], calc_TotalCost = roomCost\<rparr>
             in
             if failed ev SelectSnacks then
               Inl (Errorf ''error querying snacks: '' ev SelectSnacks)
             else if rows \<noteq> [] \<and> failed ev ScanSnack then
               Inl (Errorf ''error scanning snack: '' ev ScanSnack)
             else if failed ev RowsErr then
               Inl (Errorf ''error iterating snacks: '' ev RowsErr)
             else if failed ev Commit then
               Inl (Errorf ''error committing transaction: '' ev Commit)
             else Inr response))"

subsection \<open>ReservationService.UpdateReservationStatus\<close>

definition set_status :: "env \<Rightarrow> uuid \<Rightarrow> string \<Rightarrow> reservation \<Rightarrow> reservation" where
  \<comment> \<open>\<^verbatim>\<open>UPDATE reservations SET status = $1, updated_at = NOW() WHERE id = $2\<close> on one row\<close>
  "set_status ev rid st r =
     (if res_id r = rid then r\<lparr>res_status := st, res_updated_at := db_now ev\<rparr> else r)"

definition rowsAffected :: "database \<Rightarrow> uuid \<Rightarrow> nat" where
  "rowsAffected db rid = length (filter (\<lambda>r. res_id r = rid) (reservations db))"

definition joined_reservation :: "database \<Rightarrow> uuid \<Rightarrow> (reservation \<times> room \<times> user) list" where
  \<comment> \<open>\<^verbatim>\<open>FROM reservations r JOIN rooms rm ON r.room_id = rm.id JOIN users u
      ON r.user_id = u.id WHERE r.id = $1\<close>\<close>
  "joined_reservation db rid =
     [(r, rm, u). r \<leftarrow> reservations db, rm \<leftarrow> rooms db, u \<leftarrow> users db,
                  res_room_id r = room_id rm \<and> res_user_id r = user_id u \<and> res_id r = rid]"

definition reservation_event :: "reservation \<Rightarrow> room \<Rightarrow> user \<Rightarrow> ReservationEvent" where
  "reservation_event r rm u =
     \<lparr>ev_ID = res_id r, ev_RoomID = res_room_id r, ev_RoomName = room_name rm,
      ev_RoomDetails = \<lparr>ri_Capacity = room_capacity rm, ri_PricePerHour = room_price_per_hour rm\<rparr>,
      ev_UserID = res_user_id r, ev_Username = user_username u,
      ev_StartTime = res_start_time r, ev_EndTime = res_end_time r,
      ev_DurationHours = Hours (Sub (res_end_time r) (res_start_time r)),
      ev_VisitorCount = res_visitor_count r, ev_Price = res_price r, ev_Status = res_status r\<rparr>"

definition UpdateReservationStatus ::
  "env \<Rightarrow> UpdateReservationStatusRequest \<Rightarrow> database \<Rightarrow> ReservationEvent result"
where
  "UpdateReservationStatus ev req db =
     (let tx = db\<lparr>reservations :=
                   map (set_status ev (upd_ReservationID req) (upd_Status req)) (reservations db)\<rparr>
      in
      if \<not> IsValid (upd_Status req) then
        (Inl ''invalid status: must be one of pending, confirmed, cancelled, or completed'', db)
      else if failed ev Begin then
        (Inl (Errorf ''error starting transaction: '' ev Begin), db)
      else if failed ev UpdateStatus then
        (Inl (Errorf ''error updating reservation status: '' ev UpdateStatus), db)
      else if failed ev RowsAffected then
        (Inl (Errorf ''error getting rows affected: '' ev RowsAffected), db)
      else if rowsAffected db (upd_ReservationID req) = 0 then
        (Inl (''reservation not found with ID: '' @ upd_ReservationID req), db)
      else if failed ev SelectReservation then
        (Inl (Errorf ''error fetching updated reservation: '' ev SelectReservation), db)
      else
        (case joined_reservation tx (upd_ReservationID req) of
           [] \<Rightarrow> (Inl ''error fetching updated reservation: sql: no rows in result set'', db)
         | (r, rm, u) # _ \<Rightarrow>
             if failed ev Commit then
               (Inl (Errorf ''error committing transaction: '' ev Commit), db)
             else (Inr (reservation_event r rm u), tx)))"

subsection \<open>ReservationService.GetReservationByID\<close>

definition joined_snacks :: "database \<Rightarrow> uuid \<Rightarrow> (reservation_snack \<times> snack) list" where
  \<comment> \<open>\<^verbatim>\<open>FROM reservation_snacks rs JOIN snacks s ON rs.snack_id = s.id
      WHERE rs.reservation_id = $1\<close>\<close>
  "joined_snacks db rid =
     [(rs, s). rs \<leftarrow> reservation_snacks db, s \<leftarrow> snacks db,
               rs_snack_id rs = snack_id s \<and> rs_reservation_id rs = rid]"

definition detail_item :: "reservation_snack \<times> snack \<Rightarrow> snack_item" where
  \<comment> \<open>one scanned row: \<^verbatim>\<open>s.id, s.name, s.category, rs.price, rs.quantity\<close>\<close>
  "detail_item row =
     (case row of (rs, s) \<Rightarrow>
        \<lparr>si_ID = snack_id s, si_Name = snack_name s, si_Category = snack_category s,
         si_Price = rs_price rs, si_Quantity = rs_quantity rs,
         si_Subtotal = fmul (rs_price rs) (float64_of_int (rs_quantity rs))\<rparr>)"

definition GetReservationByID :: "env \<Rightarrow> uuid \<Rightarrow> database \<Rightarrow> string + ReservationDetailResponse" where
  "GetReservationByID ev rid db =
     (if failed ev Begin then
        Inl (Errorf ''error starting transaction: '' ev Begin)
      else if failed ev SelectReservation then
        Inl (Errorf ''error fetching reservation: '' ev SelectReservation)
      else
        (case joined_reservation db rid of
           [] \<Rightarrow> Inl ''reservation not found''
         | (r, rm, u) # _ \<Rightarrow>
             let rows = joined_snacks db rid in
             if failed ev SelectReservationSnacks then
               Inl (Errorf ''error fetching reservation snacks: '' ev SelectReservationSnacks)
             else if rows \<noteq> [] \<and> failed ev ScanSnack then
               Inl (Errorf ''error scanning snack: '' ev ScanSnack)
             else if failed ev RowsErr then
               Inl (Errorf ''error iterating snacks: '' ev RowsErr)
             else if failed ev Commit then
               Inl (Errorf ''error committing transaction: '' ev Commit)
             else
               Inr \<lparr>det_ID = res_id r, det_Status = res_status r,
                    det_StartTime = res_start_time r, det_EndTime = res_end_time r,
                    det_VisitorCount = res_visitor_count r, det_Price = res_price r,
                    det_CreatedAt = res_created_at r, det_UpdatedAt = res_updated_at r,
                    det_Room = \<lparr>dr_ID = room_id rm, dr_Name = room_name rm,
                                dr_Capacity = room_capacity rm,
                                dr_PricePerHour = room_price_per_hour rm\<rparr>,
                    det_User = \<lparr>du_ID = user_id u, du_Username = user_username u\<rparr>,
                    det_Snacks = map detail_item rows,
                    det_TotalCost = res_price r\<rparr>))"

subsection \<open>ReservationHandler\<close>

definition StatusOK :: nat where "StatusOK = 200"
definition StatusBadRequest :: nat where "StatusBadRequest = 400"
definition StatusNotFound :: nat where "StatusNotFound = 404"
definition StatusInternalServerError :: nat where "StatusInternalServerError = 500"

definition Handler_UpdateReservationStatus ::
  "env \<Rightarrow> UpdateReservationStatusRequest \<Rightarrow> database \<Rightarrow> (nat \<times> (string + ReservationEvent)) \<times> database"
where
  "Handler_UpdateReservationStatus ev req db =
     (case UpdateReservationStatus ev req db of
        (Inl err, db') \<Rightarrow>
          if err = ''reservation not found'' then ((StatusNotFound, Inl err), db')
          else if Contains err ''invalid status'' then ((StatusBadRequest, Inl err), db')
          else ((StatusInternalServerError, Inl err), db')
      | (Inr updatedReservation, db') \<Rightarrow> ((StatusOK, Inr updatedReservation), db'))"


definition Handler_CalculateReservationCost ::
  "env \<Rightarrow> ReservationCalculationRequest \<Rightarrow> database \<Rightarrow>
     nat \<times> (string + ReservationCalculationResponse)"
where
  "Handler_CalculateReservationCost ev req db =
     (if Before (calc_EndTime req) (calc_StartTime req) then
        (StatusBadRequest, Inl ''end time must be after start time'')
      else
        (case CalculateReservationCost ev req db of
           Inl err \<Rightarrow>
             if err = ''room not found or inactive'' then (StatusNotFound, Inl err)
             else (StatusInternalServerError, Inl err)
         | Inr response \<Rightarrow> (StatusOK, Inr response)))"

subsection \<open>The properties of the specification, as predicates\<close>

definition spec_conflict :: "time \<Rightarrow> time \<Rightarrow> time \<Rightarrow> time \<Rightarrow> bool" where
  \<comment> \<open>the specification's intersection test of a candidate \<open>[S,E)\<close> with a stored \<open>[s,e)\<close>\<close>
  "spec_conflict S E s e = (s < E \<and> e > S)"

definition clash :: "reservation \<Rightarrow> reservation \<Rightarrow> bool" where
  \<comment> \<open>two reservations of the same room, neither cancelled, whose intervals intersect\<close>
  "clash a b =
     (res_room_id a = res_room_id b \<and> res_status a \<noteq> ''cancelled'' \<and> res_status b \<noteq> ''cancelled''
      \<and> spec_conflict (res_start_time a) (res_end_time a) (res_start_time b) (res_end_time b))"

fun no_double_booking :: "reservation list \<Rightarrow> bool" where
  \<comment> \<open>the invariant: no two rows of the table clash\<close>
  "no_double_booking [] = True"
| "no_double_booking (r # rs) = ((\<forall>x \<in> set rs. \<not> clash r x) \<and> no_double_booking rs)"

definition time_validation_error :: "string \<Rightarrow> bool" where
  \<comment> \<open>the four messages of the time checks\<close>
  "time_validation_error err =
     (err = ''reservation start time must be in the future''
      \<or> err = ''reservation end time must be after start time''
      \<or> err = ''reservation must be at least 30 minutes long''
      \<or> err = ''reservation cannot exceed 24 hours'')"

definition time_violation :: "time \<Rightarrow> time \<Rightarrow> time \<Rightarrow> bool" where
  \<comment> \<open>the specification's time constraints, violated: the duration \<open>E - S\<close> is under
      30 minutes or over 24 hours, or the start \<open>S\<close> is before the current time \<open>t\<close>\<close>
  "time_violation t S E = (E - S < 30 * Minute \<or> E - S > 24 * Hour \<or> S < t)"

definition conflicting :: "database \<Rightarrow> uuid \<Rightarrow> time \<Rightarrow> time \<Rightarrow> reservation \<Rightarrow> bool" where
  \<comment> \<open>a stored reservation that conflicts with the candidate \<open>[S,E)\<close> for the room, as
      the specification defines a conflict\<close>
  "conflicting db rid S E r =
     (r \<in> set (reservations db) \<and> res_room_id r = rid \<and> res_status r \<noteq> ''cancelled''
      \<and> spec_conflict S E (res_start_time r) (res_end_time r))"

definition valid_time_range :: "database \<Rightarrow> bool" where
  \<comment> \<open>the table constraint \<^verbatim>\<open>CHECK (end_time > start_time)\<close>\<close>
  "valid_time_range db = (\<forall>r \<in> set (reservations db). res_end_time r > res_start_time r)"

definition priced_lines :: "database \<Rightarrow> snack_line list \<Rightarrow> (snack \<times> snack_line) list" where
  \<comment> \<open>the requested snack lines, each with the catalog row of its snack, in the
      order of the catalog; a line whose snack the catalog does not have is absent\<close>
  "priced_lines db ls = [(s, l). s \<leftarrow> snacks db, l \<leftarrow> ls, SnackID l = snack_id s]"

definition line_subtotal :: "snack \<times> snack_line \<Rightarrow> real" where
  \<comment> \<open>catalog price times requested quantity, as a \<^verbatim>\<open>float64\<close> product\<close>
  "line_subtotal sl = (case sl of (s, l) \<Rightarrow> fmul (snack_price s) (float64_of_int (Quantity l)))"

definition room_cost_of :: "real \<Rightarrow> time \<Rightarrow> time \<Rightarrow> real" where
  \<comment> \<open>hourly rate times \<open>E - S\<close> in hours\<close>
  "room_cost_of pricePerHour S E = fmul pricePerHour (Hours (E - S))"

definition spec_total_cost :: "database \<Rightarrow> real \<Rightarrow> time \<Rightarrow> time \<Rightarrow> snack_line list \<Rightarrow> real" where
  \<comment> \<open>the specification's total in \<^verbatim>\<open>float64\<close>: the room cost plus the sum of the line
      subtotals, the sum being taken first, from zero, in the order of the catalog\<close>
  "spec_total_cost db pricePerHour S E ls =
     fadd (room_cost_of pricePerHour S E)
          (foldl fadd 0 (map line_subtotal (priced_lines db ls)))"

definition running_total_cost ::
  "database \<Rightarrow> real \<Rightarrow> time \<Rightarrow> time \<Rightarrow> snack_line list \<Rightarrow> real"
where
  \<comment> \<open>the same room cost and line subtotals, the subtotals added to the room cost
      one after the other\<close>
  "running_total_cost db pricePerHour S E ls =
     foldl fadd (room_cost_of pricePerHour S E) (map line_subtotal (priced_lines db ls))"

definition known_lines :: "database \<Rightarrow> snack_line list \<Rightarrow> snack_line list" where
  \<comment> \<open>the request lines whose snack id is in the catalog\<close>
  "known_lines db ls = filter (\<lambda>l. SnackID l \<in> set (map snack_id (snacks db))) ls"

definition reprice :: "(snack \<Rightarrow> real) \<Rightarrow> database \<Rightarrow> database" where
  \<comment> \<open>an arbitrary change of the catalog's prices\<close>
  "reprice f db = db\<lparr>snacks := map (\<lambda>s. s\<lparr>snack_price := f s\<rparr>) (snacks db)\<rparr>"

subsection \<open>A small database for the concrete instances\<close>

definition room_A :: room where
  "room_A = \<lparr>room_id = ''room-a'', room_name = ''Aster'', room_capacity = 10,
             room_price_per_hour = 100, room_status = ''available''\<rparr>"

definition user_U :: user where
  "user_U = \<lparr>user_id = ''user-u'', user_username = ''uma''\<rparr>"

definition coffee :: snack where
  "coffee = \<lparr>snack_id = ''snack-coffee'', snack_name = ''Coffee'',
             snack_category = ''drink'', snack_price = 5\<rparr>"

definition cake :: snack where
  "cake = \<lparr>snack_id = ''snack-cake'', snack_name = ''Cake'',
           snack_category = ''food'', snack_price = 12\<rparr>"

definition booking_1 :: reservation where
  \<comment> \<open>room A from hour 1002 to hour 1003\<close>
  "booking_1 = \<lparr>res_id = ''res-1'', res_room_id = ''room-a'', res_user_id = ''user-u'',
                res_start_time = 1002 * Hour, res_end_time = 1003 * Hour,
                res_visitor_count = 3, res_price = 100, res_status = ''confirmed'',
                res_created_at = 900 * Hour, res_updated_at = 900 * Hour\<rparr>"

definition db_0 :: database where
  "db_0 = \<lparr>rooms = [room_A], users = [user_U], snacks = [coffee, cake],
           reservations = [booking_1], reservation_snacks = []\<rparr>"

definition env_0 :: env where
  "env_0 = \<lparr>now = 1000 * Hour, now_done = 1000 * Hour + Second, db_now = 1000 * Hour,
            gen_id = ''res-2'', fault = (\<lambda>c. None)\<rparr>"

definition req_free :: CreateReservationRequest where
  \<comment> \<open>room A from hour 1004 to hour 1006, two coffees and a cake\<close>
  "req_free = \<lparr>RoomID = ''room-a'', UserID = ''user-u'',
               StartTime = 1004 * Hour, EndTime = 1006 * Hour, VisitorCount = 4,
               Snacks = [\<lparr>SnackID = ''snack-coffee'', Quantity = 2\<rparr>,
                         \<lparr>SnackID = ''snack-cake'', Quantity = 1\<rparr>]\<rparr>"

definition calc_free :: ReservationCalculationRequest where
  "calc_free = \<lparr>calc_RoomID = RoomID req_free, calc_Snacks = Snacks req_free,
                calc_StartTime = StartTime req_free, calc_EndTime = EndTime req_free\<rparr>"

definition req_short :: CreateReservationRequest where
  \<comment> \<open>as \<open>req_free\<close>, but ten minutes long\<close>
  "req_short = req_free\<lparr>EndTime := 1004 * Hour + 10 * Minute\<rparr>"

definition calc_short :: ReservationCalculationRequest where
  "calc_short = calc_free\<lparr>calc_EndTime := 1004 * Hour + 10 * Minute\<rparr>"

definition booking_2 :: reservation where
  \<comment> \<open>the row \<open>req_free\<close> creates\<close>
  "booking_2 = \<lparr>res_id = ''res-2'', res_room_id = ''room-a'', res_user_id = ''user-u'',
                res_start_time = 1004 * Hour, res_end_time = 1006 * Hour,
                res_visitor_count = 4, res_price = 222, res_status = ''pending'',
                res_created_at = 1000 * Hour, res_updated_at = 1000 * Hour\<rparr>"

definition resp_free :: CreateReservationResponse where
  "resp_free = \<lparr>cr_ReservationID = ''res-2'', cr_Status = ''pending'', cr_TotalCost = 222,
                cr_CreatedAt = 1000 * Hour + Second\<rparr>"

definition db_1 :: database where
  \<comment> \<open>\<open>db_0\<close> after \<open>req_free\<close>\<close>
  "db_1 = db_0\<lparr>reservations := [booking_1, booking_2],
               reservation_snacks :=
                 [\<lparr>rs_reservation_id = ''res-2'', rs_snack_id = ''snack-coffee'',
                   rs_quantity = 2, rs_price = 5\<rparr>,
                  \<lparr>rs_reservation_id = ''res-2'', rs_snack_id = ''snack-cake'',
                   rs_quantity = 1, rs_price = 12\<rparr>]\<rparr>"

definition req_crowded :: CreateReservationRequest where
  \<comment> \<open>as \<open>req_free\<close>, with eleven visitors for the ten places of room A\<close>
  "req_crowded = req_free\<lparr>VisitorCount := 11\<rparr>"

definition req_unknown :: UpdateReservationStatusRequest where
  \<comment> \<open>a status update for an identifier no reservation has\<close>
  "req_unknown = \<lparr>upd_ReservationID = ''3f2504e0-4f89-11d3-9a0c-0305e82c3301'',
                  upd_Status = ''confirmed''\<rparr>"

definition req_ghost :: CreateReservationRequest where
  \<comment> \<open>as \<open>req_free\<close>, with one more line for a snack the catalog does not have\<close>
  "req_ghost = req_free\<lparr>Snacks := [\<lparr>SnackID = ''snack-coffee'', Quantity = 2\<rparr>,
                                     \<lparr>SnackID = ''snack-ghost'', Quantity = 3\<rparr>,
                                     \<lparr>SnackID = ''snack-cake'', Quantity = 1\<rparr>]\<rparr>"

definition calc_ghost :: ReservationCalculationRequest where
  "calc_ghost = calc_free\<lparr>calc_Snacks := Snacks req_ghost\<rparr>"

definition calc_resp_free :: ReservationCalculationResponse where
  \<comment> \<open>the cost of \<open>calc_free\<close>\<close>
  "calc_resp_free =
     \<lparr>calc_Room = \<lparr>rc_ID = ''room-a'', rc_Name = ''Aster'', rc_PricePerHour = 100,
                   rc_TotalHours = 2, rc_TotalCost = 200\<rparr>,
      calc_SnackItems =
        [\<lparr>si_ID = ''snack-coffee'', si_Name = ''Coffee'', si_Category = ''drink'',
          si_Price = 5, si_Quantity = 2, si_Subtotal = 10\<rparr>,
         \<lparr>si_ID = ''snack-cake'', si_Name = ''Cake'', si_Category = ''food'',
          si_Price = 12, si_Quantity = 1, si_Subtotal = 12\<rparr>],
      calc_TotalCost = 222\<rparr>"

definition detail_2 :: ReservationDetailResponse where
  \<comment> \<open>what GetReservationByID reads for \<open>booking_2\<close> in \<open>db_1\<close>\<close>
  "detail_2 =
     \<lparr>det_ID = ''res-2'', det_Status = ''pending'',
      det_StartTime = 1004 * Hour, det_EndTime = 1006 * Hour,
      det_VisitorCount = 4, det_Price = 222,
      det_CreatedAt = 1000 * Hour, det_UpdatedAt = 1000 * Hour,
      det_Room = \<lparr>dr_ID = ''room-a'', dr_Name = ''Aster'', dr_Capacity = 10,
                  dr_PricePerHour = 100\<rparr>,
      det_User = \<lparr>du_ID = ''user-u'', du_Username = ''uma''\<rparr>,
      det_Snacks =
        [\<lparr>si_ID = ''snack-coffee'', si_Name = ''Coffee'', si_Category = ''drink'',
          si_Price = 5, si_Quantity = 2, si_Subtotal = 10\<rparr>,
         \<lparr>si_ID = ''snack-cake'', si_Name = ''Cake'', si_Category = ''food'',
          si_Price = 12, si_Quantity = 1, si_Subtotal = 12\<rparr>],
      det_TotalCost = 222\<rparr>"


definition double_prices :: "snack \<Rightarrow> real" where
  "double_prices s = 2 * snack_price s"

definition req_clash :: CreateReservationRequest where
  \<comment> \<open>room A from 1002:30 to 1003:30, across the end of \<open>booking_1\<close>\<close>
  "req_clash = \<lparr>RoomID = ''room-a'', UserID = ''user-u'',
                StartTime = 1002 * Hour + 30 * Minute, EndTime = 1003 * Hour + 30 * Minute,
                VisitorCount = 4, Snacks = []\<rparr>"

definition req_cancel_1 :: UpdateReservationStatusRequest where
  "req_cancel_1 = \<lparr>upd_ReservationID = ''res-1'', upd_Status = ''cancelled''\<rparr>"

definition req_confirm_1 :: UpdateReservationStatusRequest where
  "req_confirm_1 = \<lparr>upd_ReservationID = ''res-1'', upd_Status = ''confirmed''\<rparr>"

definition booking_3 :: reservation where
  \<comment> \<open>the row \<open>req_clash\<close> creates once the slot is free\<close>
  "booking_3 = \<lparr>res_id = ''res-2'', res_room_id = ''room-a'', res_user_id = ''user-u'',
                res_start_time = 1002 * Hour + 30 * Minute,
                res_end_time = 1003 * Hour + 30 * Minute,
                res_visitor_count = 4, res_price = 100, res_status = ''pending'',
                res_created_at = 1000 * Hour, res_updated_at = 1000 * Hour\<rparr>"

definition db_cancelled :: database where
  \<comment> \<open>\<open>db_0\<close> after \<open>booking_1\<close> is cancelled\<close>
  "db_cancelled =
     db_0\<lparr>reservations :=
            [booking_1\<lparr>res_status := ''cancelled'', res_updated_at := 1000 * Hour\<rparr>]\<rparr>"

definition db_rebooked :: database where
  \<comment> \<open>\<open>db_cancelled\<close> after \<open>req_clash\<close>\<close>
  "db_rebooked =
     db_0\<lparr>reservations :=
            [booking_1\<lparr>res_status := ''cancelled'', res_updated_at := 1000 * Hour\<rparr>,
             booking_3]\<rparr>"

definition db_revived :: database where
  \<comment> \<open>\<open>db_rebooked\<close> after \<open>booking_1\<close> is set to confirmed again\<close>
  "db_revived =
     db_0\<lparr>reservations :=
            [booking_1\<lparr>res_status := ''confirmed'', res_updated_at := 1000 * Hour\<rparr>,
             booking_3]\<rparr>"

definition revives :: "database \<Rightarrow> UpdateReservationStatusRequest \<Rightarrow> bool" where
  \<comment> \<open>the update gives a cancelled reservation a status other than cancelled\<close>
  "revives db req =
     (upd_Status req \<noteq> ''cancelled''
      \<and> (\<exists>r \<in> set (reservations db).
            res_id r = upd_ReservationID req \<and> res_status r = ''cancelled''))"





definition row_subtotals :: "snack_line list \<Rightarrow> snack \<Rightarrow> real list" where
  \<comment> \<open>what one selected snack row adds in \<open>order_snacks\<close> and \<open>price_snacks\<close>:
      the subtotal with the first line that names it, if any\<close>
  "row_subtotals ls s =
     (case find (\<lambda>l. SnackID l = snack_id s) ls of
        None \<Rightarrow> []
      | Some l \<Rightarrow> [line_subtotal (s, l)])"

definition calc_of :: "CreateReservationRequest \<Rightarrow> ReservationCalculationRequest" where
  \<comment> \<open>the cost calculation request with the same room, interval and snack lines\<close>
  "calc_of req = \<lparr>calc_RoomID = RoomID req, calc_Snacks = Snacks req,
                  calc_StartTime = StartTime req, calc_EndTime = EndTime req\<rparr>"

definition req_twice :: CreateReservationRequest where
  \<comment> \<open>as \<open>req_free\<close>, with two lines for coffee: one cup, then two\<close>
  "req_twice = req_free\<lparr>Snacks := [\<lparr>SnackID = ''snack-coffee'', Quantity = 1\<rparr>,
                                     \<lparr>SnackID = ''snack-coffee'', Quantity = 2\<rparr>]\<rparr>"

definition resp_twice :: CreateReservationResponse where
  "resp_twice = \<lparr>cr_ReservationID = ''res-2'', cr_Status = ''pending'', cr_TotalCost = 205,
                 cr_CreatedAt = 1000 * Hour + Second\<rparr>"

definition priced_subtotal :: "priced_snack \<Rightarrow> real" where
  \<comment> \<open>the subtotal \<open>add_snack_costs\<close> computes for one snack\<close>
  "priced_subtotal sn = fmul (ps_Price sn) (float64_of_int (ps_Quantity sn))"

definition req_one :: CreateReservationRequest where
  \<comment> \<open>as \<open>req_free\<close>, with the coffee line only\<close>
  "req_one = req_free\<lparr>Snacks := [\<lparr>SnackID = ''snack-coffee'', Quantity = 2\<rparr>]\<rparr>"

definition tea :: snack where
  \<comment> \<open>priced 1.10: the column value as the \<^verbatim>\<open>float64\<close> scanned from it\<close>
  "tea = \<lparr>snack_id = ''snack-tea'', snack_name = ''Tea'', snack_category = ''drink'',
          snack_price = float64 (11 / 10)\<rparr>"

definition biscuit :: snack where
  \<comment> \<open>priced 0.20\<close>
  "biscuit = \<lparr>snack_id = ''snack-biscuit'', snack_name = ''Biscuit'',
              snack_category = ''food'', snack_price = float64 (1 / 5)\<rparr>"

definition db_cents :: database where
  \<comment> \<open>\<open>db_0\<close> with a catalog of tea and biscuits\<close>
  "db_cents = db_0\<lparr>snacks := [tea, biscuit]\<rparr>"

definition req_cents :: CreateReservationRequest where
  \<comment> \<open>room A from hour 1004 to hour 1005, one tea and three biscuits\<close>
  "req_cents = \<lparr>RoomID = ''room-a'', UserID = ''user-u'',
                StartTime = 1004 * Hour, EndTime = 1005 * Hour, VisitorCount = 4,
                Snacks = [\<lparr>SnackID = ''snack-tea'', Quantity = 1\<rparr>,
                          \<lparr>SnackID = ''snack-biscuit'', Quantity = 3\<rparr>]\<rparr>"

definition resp_one :: CreateReservationResponse where
  "resp_one = \<lparr>cr_ReservationID = ''res-2'', cr_Status = ''pending'', cr_TotalCost = 210,
               cr_CreatedAt = 1000 * Hour + Second\<rparr>"



section \<open>Properties\<close>

subsection \<open>Evaluating float64 operations\<close>

lemma round_half_even_near: "\<bar>y - of_int m\<bar> < 1 / 2 \<Longrightarrow> round_half_even y = m"
proof -
  assume a: "\<bar>y - of_int m\<bar> < 1 / 2"
  show ?thesis
  proof (cases "of_int m \<le> y")
    case True
    with a have "\<lfloor>y\<rfloor> = m" by (intro floor_unique) auto
    with a True show ?thesis by (simp add: round_half_even_def Let_def)
  next
    case False
    with a have f: "\<lfloor>y\<rfloor> = m - 1" by (intro floor_unique) auto
    with a False have "y - of_int (m - 1) > 1 / 2" by auto
    with f show ?thesis by (simp add: round_half_even_def Let_def)
  qed
qed

lemma float64_eq:
  assumes "x \<noteq> 0" and "2 powr (of_int e + 52) \<le> \<bar>x\<bar>" and "\<bar>x\<bar> < 2 powr (of_int e + 53)"
    and "round_half_even (x / 2 powr of_int e) = m"
  shows "float64 x = of_int m * 2 powr of_int e"
proof -
  have "\<lfloor>log 2 \<bar>x\<bar>\<rfloor> = e + 52"
    using assms(1-3) floor_log_eq_powr_iff [of "\<bar>x\<bar>" 2 "e + 52"]
    by (simp add: add.commute add.left_commute)
  then show ?thesis using assms(1,4) by (simp add: float64_def Let_def)
qed

lemma float64_frac:
  assumes "2 ^ 52 \<le> \<bar>x\<bar> * 2 ^ n" and "\<bar>x\<bar> * 2 ^ n < 2 ^ 53"
    and "\<bar>x * 2 ^ n - of_int m\<bar> < 1 / 2"
  shows "float64 x = of_int m / 2 ^ n"
proof -
  have p: "(2::real) powr of_int (- int n) = 1 / 2 ^ n"
    by (simp add: powr_minus powr_realpow inverse_eq_divide)
  have x0: "x \<noteq> 0" using assms(1) by auto
  have a: "(2::real) powr (of_int (- int n) + 52) = 2 ^ 52 / 2 ^ n"
  proof -
    have "(2::real) powr (of_int (- int n) + 52) = 2 powr of_int (- int n) * 2 powr 52"
      by (rule powr_add)
    also have "\<dots> = 2 ^ 52 / 2 ^ n"
      unfolding p by simp
    finally show ?thesis .
  qed
  have b: "(2::real) powr (of_int (- int n) + 53) = 2 ^ 53 / 2 ^ n"
  proof -
    have "(2::real) powr (of_int (- int n) + 53) = 2 powr of_int (- int n) * 2 powr 53"
      by (rule powr_add)
    also have "\<dots> = 2 ^ 53 / 2 ^ n"
      unfolding p by simp
    finally show ?thesis .
  qed
  have l: "2 powr (of_int (- int n) + 52) \<le> \<bar>x\<bar>"
    unfolding a using assms(1) by (simp add: field_simps)
  have u: "\<bar>x\<bar> < 2 powr (of_int (- int n) + 53)"
    unfolding b using assms(2) by (simp add: field_simps)
  have r: "round_half_even (x / 2 powr of_int (- int n)) = m"
    unfolding p using assms(3) by (simp add: round_half_even_near)
  from float64_eq [OF x0 l u r] show ?thesis unfolding p by simp
qed

lemma ex_scale:
  fixes a :: int
  assumes "2 ^ 52 \<le> a * 2 ^ k" and "a < 2 ^ 53"
  shows "\<exists>n. 2 ^ 52 \<le> a * 2 ^ n \<and> a * 2 ^ n < 2 ^ 53"
  using assms
proof (induction k)
  case 0
  then show ?case by (intro exI [of _ 0]) simp
next
  case (Suc k)
  show ?case
  proof (cases "2 ^ 52 \<le> a * 2 ^ k")
    case True
    with Suc show ?thesis by blast
  next
    case False
    then have "a * 2 ^ Suc k < 2 ^ 53" by simp
    with Suc.prems show ?thesis by blast
  qed
qed

lemma float64_of_int_exact:
  assumes "\<bar>i\<bar> < 2 ^ 53"
  shows "float64 (of_int i) = of_int i"
proof (cases "i = 0")
  case True
  then show ?thesis by (simp add: float64_def)
next
  case False
  then have "2 ^ 52 \<le> \<bar>i\<bar> * 2 ^ 52" by simp
  from ex_scale [OF this assms]
  obtain n where n: "2 ^ 52 \<le> \<bar>i\<bar> * 2 ^ n" "\<bar>i\<bar> * 2 ^ n < 2 ^ 53" by blast
  have "float64 (of_int i) = of_int (i * 2 ^ n) / 2 ^ n"
  proof (rule float64_frac)
    have "(2::real) ^ 52 \<le> of_int (\<bar>i\<bar> * 2 ^ n)"
      using n(1) by (metis of_int_le_iff of_int_numeral of_int_power)
    then show "(2::real) ^ 52 \<le> \<bar>of_int i\<bar> * 2 ^ n" by simp
    have "of_int (\<bar>i\<bar> * 2 ^ n) < (2::real) ^ 53"
      using n(2) by (metis of_int_less_iff of_int_numeral of_int_power)
    then show "\<bar>of_int i\<bar> * 2 ^ n < (2::real) ^ 53" by simp
    show "\<bar>of_int i * 2 ^ n - of_int (i * 2 ^ n)\<bar> < (1::real) / 2" by simp
  qed
  then show ?thesis by simp
qed

lemma float64_numeral: "numeral k < (2::int) ^ 53 \<Longrightarrow> float64 (numeral k) = numeral k"
  using float64_of_int_exact [of "numeral k"] by simp

lemma float64_0 [simp]: "float64 0 = 0"
  by (simp add: float64_def)

lemma float64_1: "float64 1 = 1"
  using float64_of_int_exact [of 1] by simp

lemma round_half_even_tie:
  assumes "\<bar>y - of_int m\<bar> = 1 / 2" and "even m"
  shows "round_half_even y = m"
proof (cases "of_int m \<le> y")
  case True
  with assms(1) have y: "y = of_int m + 1 / 2" by simp
  then have "\<lfloor>y\<rfloor> = m" by (intro floor_unique) auto
  with y assms(2) show ?thesis by (simp add: round_half_even_def Let_def)
next
  case False
  with assms(1) have y: "y = of_int m - 1 / 2" by simp
  then have f: "\<lfloor>y\<rfloor> = m - 1" by (intro floor_unique) auto
  with y have "y - of_int \<lfloor>y\<rfloor> = 1 / 2" by simp
  with f assms(2) show ?thesis by (simp add: round_half_even_def Let_def)
qed

lemma float64_frac_tie:
  assumes "2 ^ 52 \<le> \<bar>x\<bar> * 2 ^ n" and "\<bar>x\<bar> * 2 ^ n < 2 ^ 53"
    and "\<bar>x * 2 ^ n - of_int m\<bar> = 1 / 2" and "even m"
  shows "float64 x = of_int m / 2 ^ n"
proof -
  have p: "(2::real) powr of_int (- int n) = 1 / 2 ^ n"
    by (simp add: powr_minus powr_realpow inverse_eq_divide)
  have x0: "x \<noteq> 0" using assms(1) by auto
  have "(2::real) powr (of_int (- int n) + 52) = 2 powr of_int (- int n) * 2 powr 52"
    by (rule powr_add)
  then have a: "(2::real) powr (of_int (- int n) + 52) = 2 ^ 52 / 2 ^ n"
    unfolding p by simp
  have "(2::real) powr (of_int (- int n) + 53) = 2 powr of_int (- int n) * 2 powr 53"
    by (rule powr_add)
  then have b: "(2::real) powr (of_int (- int n) + 53) = 2 ^ 53 / 2 ^ n"
    unfolding p by simp
  have l: "2 powr (of_int (- int n) + 52) \<le> \<bar>x\<bar>"
    unfolding a using assms(1) by (simp add: field_simps)
  have u: "\<bar>x\<bar> < 2 powr (of_int (- int n) + 53)"
    unfolding b using assms(2) by (simp add: field_simps)
  have r: "round_half_even (x / 2 powr of_int (- int n)) = m"
    unfolding p using assms(3,4) by (simp add: round_half_even_tie)
  from float64_eq [OF x0 l u r] show ?thesis unfolding p by simp
qed

lemma round_half_even_of_int: "round_half_even (of_int m) = m"
  by (simp add: round_half_even_near)

lemma round_half_even_cases: "round_half_even y = \<lfloor>y\<rfloor> \<or> round_half_even y = \<lfloor>y\<rfloor> + 1"
  by (simp add: round_half_even_def Let_def)

lemma round_half_even_integer: "y = of_int \<lfloor>y\<rfloor> \<Longrightarrow> round_half_even y = \<lfloor>y\<rfloor>"
  by (metis round_half_even_of_int)

lemma round_half_even_bounds:
  assumes "2 ^ 52 \<le> \<bar>z\<bar>" and "\<bar>z\<bar> < 2 ^ 53"
  shows "2 ^ 52 \<le> \<bar>round_half_even z\<bar> \<and> \<bar>round_half_even z\<bar> \<le> 2 ^ 53"
proof -
  define k where "k = \<lfloor>z\<rfloor>"
  define r where "r = round_half_even z"
  have c: "r = k \<or> r = k + 1"
    unfolding r_def k_def by (rule round_half_even_cases)
  have i: "z = of_int k \<Longrightarrow> r = k"
    unfolding r_def k_def by (rule round_half_even_integer)
  have fl: "of_int k \<le> z" "z < of_int k + 1"
    unfolding k_def by linarith+
  have "4503599627370496 \<le> \<bar>r\<bar> \<and> \<bar>r\<bar> \<le> 9007199254740992"
  proof (cases "0 \<le> z")
    case True
    with assms have "(4503599627370496::real) \<le> z" "z < 9007199254740992" by simp_all
    with fl have "4503599627370496 \<le> k" "k < 9007199254740992" by linarith+
    with c show ?thesis by linarith
  next
    case False
    with assms have u: "z \<le> - 4503599627370496" and l: "- 9007199254740992 < z" by simp_all
    from l fl have l': "- 9007199254740992 \<le> k" by linarith
    show ?thesis
    proof (cases "z = of_int k")
      case True
      with u have "k \<le> - 4503599627370496" by linarith
      with i [OF True] l' show ?thesis by linarith
    next
      case False
      with fl have "of_int k < z" by simp
      with u have "k < - 4503599627370496" by linarith
      with c l' show ?thesis by linarith
    qed
  qed
  then show ?thesis by (simp add: r_def)
qed

lemma float64_representable_lt:
  assumes "2 ^ 52 \<le> \<bar>m\<bar>" and "\<bar>m\<bar> < 2 ^ 53"
  shows "float64 (of_int m * 2 powr of_int e) = of_int m * 2 powr of_int e"
proof -
  let ?y = "of_int m * 2 powr of_int e :: real"
  have m0: "m \<noteq> 0" using assms(1) by auto
  have ay: "\<bar>?y\<bar> = of_int \<bar>m\<bar> * 2 powr of_int e" by (simp add: abs_mult)
  have p52: "(2::real) powr (of_int e + 52) = 2 ^ 52 * 2 powr of_int e"
    by (simp add: powr_add)
  have p53: "(2::real) powr (of_int e + 53) = 2 ^ 53 * 2 powr of_int e"
    by (simp add: powr_add)
  have "(2::real) ^ 52 \<le> of_int \<bar>m\<bar>"
    using assms(1) by (metis of_int_le_iff of_int_numeral of_int_power)
  then have l: "2 powr (of_int e + 52) \<le> \<bar>?y\<bar>"
    unfolding ay p52 by (simp add: mult_right_mono)
  have "of_int \<bar>m\<bar> < (2::real) ^ 53"
    using assms(2) by (metis of_int_less_iff of_int_numeral of_int_power)
  then have u: "\<bar>?y\<bar> < 2 powr (of_int e + 53)"
    unfolding ay p53 by (simp add: mult_strict_right_mono)
  have r: "round_half_even (?y / 2 powr of_int e) = m"
    by (simp add: round_half_even_of_int)
  have y0: "?y \<noteq> 0" using m0 by simp
  from float64_eq [OF y0 l u r] show ?thesis .
qed

lemma float64_representable:
  assumes "2 ^ 52 \<le> \<bar>m\<bar>" and "\<bar>m\<bar> \<le> 2 ^ 53"
  shows "float64 (of_int m * 2 powr of_int e) = of_int m * 2 powr of_int e"
proof (cases "\<bar>m\<bar> = 2 ^ 53")
  case False
  with assms show ?thesis by (intro float64_representable_lt) simp_all
next
  case True
  then have "m = 2 ^ 53 \<or> m = - (2 ^ 53)"
    by (simp add: abs_if split: if_splits)
  then have ev: "m = 2 * (m div 2)" and h: "\<bar>m div 2\<bar> = 2 ^ 52"
    by auto
  have p1: "(2::real) powr of_int (e + 1) = 2 * 2 powr of_int e"
    by (simp add: powr_add)
  have "of_int m = (2::real) * of_int (m div 2)"
    using ev by (metis of_int_mult of_int_numeral)
  then have y: "(of_int m :: real) * 2 powr of_int e = of_int (m div 2) * 2 powr of_int (e + 1)"
    unfolding p1 by simp
  from h have "2 ^ 52 \<le> \<bar>m div 2\<bar>" "\<bar>m div 2\<bar> < 2 ^ 53" by simp_all
  from float64_representable_lt [OF this, of "e + 1"] show ?thesis
    unfolding y .
qed

lemma float64_idem: "float64 (float64 x) = float64 x"
proof (cases "x = 0")
  case True
  then show ?thesis by (simp add: float64_def)
next
  case False
  define e where "e = \<lfloor>log 2 \<bar>x\<bar>\<rfloor> - 52"
  define z where "z = x / 2 powr of_int e"
  have f: "float64 x = of_int (round_half_even z) * 2 powr of_int e"
    using False by (simp add: float64_def Let_def e_def z_def)
  have "\<lfloor>log 2 \<bar>x\<bar>\<rfloor> = e + 52" by (simp add: e_def)
  then have b: "2 powr of_int (e + 52) \<le> \<bar>x\<bar>" "\<bar>x\<bar> < 2 powr (of_int (e + 52) + 1)"
    using False floor_log_eq_powr_iff [of "\<bar>x\<bar>" 2 "e + 52"] by auto
  have p52: "(2::real) powr of_int (e + 52) = 2 ^ 52 * 2 powr of_int e"
    by (simp add: powr_add)
  have p53: "(2::real) powr (of_int (e + 52) + 1) = 2 ^ 53 * 2 powr of_int e"
    by (simp add: powr_add)
  have az: "\<bar>z\<bar> = \<bar>x\<bar> / 2 powr of_int e" by (simp add: z_def)
  have "2 ^ 52 \<le> \<bar>z\<bar>"
    unfolding az using b(1) unfolding p52 by (simp add: pos_le_divide_eq)
  moreover have "\<bar>z\<bar> < 2 ^ 53"
    unfolding az using b(2) unfolding p53 by (simp add: pos_divide_less_eq)
  ultimately have "2 ^ 52 \<le> \<bar>round_half_even z\<bar> \<and> \<bar>round_half_even z\<bar> \<le> 2 ^ 53"
    by (rule round_half_even_bounds)
  then show ?thesis unfolding f by (intro float64_representable) simp_all
qed

lemma fmul_idem: "float64 (fmul x y) = fmul x y"
  by (simp add: fmul_def float64_idem)

lemmas float_eval =
  fadd_def fmul_def fdiv_def float64_of_int_def float64_numeral float64_1
  trunc_div_def trunc_mod_def


subsection \<open>The overlap condition\<close>

lemma spec_conflict_imp_overlap_clause:
  "spec_conflict S E s e \<Longrightarrow> overlap_clause S E s e"
  by (auto simp: overlap_clause_def spec_conflict_def)

text \<open>
  C2. For all intervals with \<open>s < e\<close> and \<open>S < E\<close>, the three-clause condition of the
  overlap query holds exactly when the specification's intersection test
  \<open>s < E \<and> e > S\<close> does.
\<close>

theorem overlap_clause_iff_spec_conflict:
  "s < e \<Longrightarrow> S < E \<Longrightarrow> overlap_clause S E s e = spec_conflict S E s e"
  by (auto simp: overlap_clause_def spec_conflict_def)

theorem overlap_clause_iff_spec_conflict_witness:
  "(10::int) < 20 \<and> (15::int) < 25 \<and> overlap_clause 15 25 10 20 = spec_conflict 15 25 10 20"
  using overlap_clause_iff_spec_conflict [of 10 20 15 25] by simp

subsection \<open>Time validation\<close>

lemmas units = Hour_def Minute_def Second_def Nanosecond_def

lemmas example_defs =
  room_A_def user_U_def coffee_def cake_def booking_1_def db_0_def env_0_def
  req_free_def calc_free_def booking_2_def resp_free_def db_1_def calc_resp_free_def

lemma Sub_short: "Sub E S < 30 * Minute \<longleftrightarrow> E - S < 30 * Minute"
  by (simp add: Sub_def maxDuration_def minDuration_def units)

lemma Sub_long: "Sub E S > 24 * Hour \<longleftrightarrow> E - S > 24 * Hour"
  by (simp add: Sub_def maxDuration_def minDuration_def units)

lemma time_checks_iff:
  "(Before S t \<or> \<not> After E S \<or> Sub E S < 30 * Minute \<or> Sub E S > 24 * Hour)
     \<longleftrightarrow> time_violation t S E"
  unfolding Sub_short Sub_long time_violation_def Before_def After_def
  by (auto simp: units)

lemma Sub_exact: "\<not> time_violation t S E \<Longrightarrow> Sub E S = E - S"
  by (simp add: time_violation_def Sub_def maxDuration_def minDuration_def units)

lemma create_rows_not_time:
  "fst (create_rows ev req db p) = Inl err \<Longrightarrow> \<not> time_validation_error err"
  unfolding create_rows_def Let_def
  by (auto simp: time_validation_error_def Errorf_def split: if_splits prod.splits)

lemma create_rows_error_keeps_db:
  "create_rows ev req db p = (Inl err, db') \<Longrightarrow> db' = db"
  unfolding create_rows_def Let_def
  by (auto split: if_splits prod.splits)

lemma CreateReservation_error_keeps_db:
  "CreateReservation ev req db = (Inl err, db') \<Longrightarrow> db' = db"
  unfolding CreateReservation_def
  by (auto split: if_splits option.splits dest: create_rows_error_keeps_db)

lemma CreateReservation_time:
  "(\<exists>err. fst (CreateReservation ev req db) = Inl err \<and> time_validation_error err)
     \<longleftrightarrow> time_violation (now ev) (StartTime req) (EndTime req)"
proof (cases "Before (StartTime req) (now ev) \<or> \<not> After (EndTime req) (StartTime req)
     \<or> Sub (EndTime req) (StartTime req) < 30 * Minute
     \<or> Sub (EndTime req) (StartTime req) > 24 * Hour")
  case True
  then have "\<exists>err. fst (CreateReservation ev req db) = Inl err \<and> time_validation_error err"
    by (auto simp: CreateReservation_def time_validation_error_def)
  with True show ?thesis using time_checks_iff by blast
next
  case False
  then have nv: "\<not> time_violation (now ev) (StartTime req) (EndTime req)"
    using time_checks_iff by blast
  have "\<not> time_validation_error err" if "fst (CreateReservation ev req db) = Inl err" for err
    using that False create_rows_not_time [of ev req db]
    by (auto simp: CreateReservation_def time_validation_error_def Errorf_def
             split: if_splits option.splits)
  with nv show ?thesis by blast
qed

lemma CalculateReservationCost_time:
  "(\<exists>err. CalculateReservationCost ev req db = Inl err \<and> time_validation_error err)
     \<longleftrightarrow> time_violation (now ev) (calc_StartTime req) (calc_EndTime req)"
proof (cases "Before (calc_StartTime req) (now ev)
     \<or> \<not> After (calc_EndTime req) (calc_StartTime req)
     \<or> Sub (calc_EndTime req) (calc_StartTime req) < 30 * Minute
     \<or> Sub (calc_EndTime req) (calc_StartTime req) > 24 * Hour")
  case True
  then have "\<exists>err. CalculateReservationCost ev req db = Inl err \<and> time_validation_error err"
    by (auto simp: CalculateReservationCost_def time_validation_error_def)
  with True show ?thesis using time_checks_iff by blast
next
  case False
  then have nv: "\<not> time_violation (now ev) (calc_StartTime req) (calc_EndTime req)"
    using time_checks_iff by blast
  have "\<not> time_validation_error err" if "CalculateReservationCost ev req db = Inl err" for err
    using that False
    by (auto simp: CalculateReservationCost_def time_validation_error_def Errorf_def Let_def
             split: if_splits option.splits)
  with nv show ?thesis by blast
qed

text \<open>
  C4. CreateReservation and CalculateReservationCost fail with one of the time
  validation errors exactly when the duration \<open>E - S\<close> is under 30 minutes or over
  24 hours, or the start is before the current time; CreateReservation then leaves
  the database as it was. A request that violates none of the three constraints
  does not fail with a time validation error.
\<close>

theorem time_validation_rejects:
  "((\<exists>err. CreateReservation ev req db = (Inl err, db) \<and> time_validation_error err)
      \<longleftrightarrow> time_violation (now ev) (StartTime req) (EndTime req))
   \<and> ((\<exists>err. CalculateReservationCost ev creq db = Inl err \<and> time_validation_error err)
      \<longleftrightarrow> time_violation (now ev) (calc_StartTime creq) (calc_EndTime creq))"
proof -
  have "(\<exists>err. CreateReservation ev req db = (Inl err, db) \<and> time_validation_error err)
      \<longleftrightarrow> (\<exists>err. fst (CreateReservation ev req db) = Inl err \<and> time_validation_error err)"
    using CreateReservation_error_keeps_db [of ev req db]
    by (metis fst_conv prod.collapse)
  then show ?thesis
    using CreateReservation_time [of ev req db] CalculateReservationCost_time [of ev creq db]
    by simp
qed

theorem time_validation_rejects_witness:
  "time_violation (now env_0) (StartTime req_short) (EndTime req_short)
   \<and> time_violation (now env_0) (calc_StartTime calc_short) (calc_EndTime calc_short)
   \<and> (\<exists>err. CreateReservation env_0 req_short db_0 = (Inl err, db_0) \<and> time_validation_error err)
   \<and> (\<exists>err. CalculateReservationCost env_0 calc_short db_0 = Inl err \<and> time_validation_error err)
   \<and> CreateReservation env_0 req_short db_0
       = (Inl ''reservation must be at least 30 minutes long'', db_0)
   \<and> CalculateReservationCost env_0 calc_short db_0
       = Inl ''reservation must be at least 30 minutes long''"
proof -
  have v: "time_violation (now env_0) (StartTime req_short) (EndTime req_short)"
    by (simp add: time_violation_def example_defs req_short_def calc_short_def units)
  have w: "time_violation (now env_0) (calc_StartTime calc_short) (calc_EndTime calc_short)"
    by (simp add: time_violation_def example_defs req_short_def calc_short_def units)
  have c: "CreateReservation env_0 req_short db_0
       = (Inl ''reservation must be at least 30 minutes long'', db_0)"
    by (simp add: CreateReservation_def Before_def After_def Sub_def maxDuration_def
                  minDuration_def example_defs req_short_def calc_short_def units)
  have d: "CalculateReservationCost env_0 calc_short db_0
       = Inl ''reservation must be at least 30 minutes long''"
    by (simp add: CalculateReservationCost_def Before_def After_def Sub_def maxDuration_def
                  minDuration_def example_defs req_short_def calc_short_def units)
  show ?thesis
    using v w c d time_validation_rejects [of env_0 req_short db_0 calc_short] by blast
qed

subsection \<open>What a successful creation writes\<close>

lemma no_faultD: "no_fault ev \<Longrightarrow> \<not> failed ev c"
  by (simp add: no_fault_def)

lemma create_rows_ok:
  "create_rows ev req db p = (Inr resp, db') \<Longrightarrow>
     resp = \<lparr>cr_ReservationID = gen_id ev, cr_Status = ''pending'',
             cr_TotalCost = fadd (fmul p (Hours (Sub (EndTime req) (StartTime req))))
               (fst (order_snacks (Snacks req) (select_snacks db (Snacks req)) (0, []))),
             cr_CreatedAt = now_done ev\<rparr>
     \<and> db' = db\<lparr>reservations := reservations db @ [reservation_row ev req (cr_TotalCost resp)],
                reservation_snacks := reservation_snacks db @
                  map (snack_order_row (gen_id ev))
                      (snd (order_snacks (Snacks req) (select_snacks db (Snacks req)) (0, [])))\<rparr>"
  unfolding create_rows_def Let_def
  by (auto split: if_splits prod.splits)

lemma create_rows_no_fault:
  "no_fault ev \<Longrightarrow> \<exists>resp db'. create_rows ev req db p = (Inr resp, db')"
  unfolding create_rows_def Let_def
  by (auto simp: no_faultD split: prod.splits)

lemma CreateReservation_ok:
  assumes "CreateReservation ev req db = (Inr resp, db')"
  shows "\<exists>rm. available_room db (RoomID req) = Some rm
    \<and> VisitorCount req \<le> room_capacity rm
    \<and> overlappingCount db (RoomID req) (StartTime req) (EndTime req) = 0
    \<and> \<not> time_violation (now ev) (StartTime req) (EndTime req)
    \<and> create_rows ev req db (room_price_per_hour rm) = (Inr resp, db')"
proof -
  have tv: "\<not> time_violation (now ev) (StartTime req) (EndTime req)"
    using assms time_checks_iff [of "StartTime req" "now ev" "EndTime req"]
    unfolding CreateReservation_def by (auto split: if_splits)
  show ?thesis using assms tv
    unfolding CreateReservation_def
    by (auto split: if_splits option.splits)
qed

lemmas unfold_create =
  CreateReservation_def create_rows_def Before_def After_def Sub_def maxDuration_def
  minDuration_def failed_def available_room_def overlappingCount_def overlapping_rows_def
  overlap_clause_def select_snacks_def Hours_def reservation_row_def snack_order_row_def
  Let_def float_eval

lemmas unfold_create_folded =
  CreateReservation_def create_rows_def Before_def After_def Sub_def maxDuration_def
  minDuration_def failed_def available_room_def overlappingCount_def overlapping_rows_def
  overlap_clause_def select_snacks_def reservation_row_def snack_order_row_def Let_def

lemma create_free: "CreateReservation env_0 req_free db_0 = (Inr resp_free, db_1)"
  by (simp add: unfold_create example_defs units)

text \<open>
  C9. A reservation that CreateReservation creates is stored with status
  \<^verbatim>\<open>pending\<close>, and the response reports status \<^verbatim>\<open>pending\<close>: the call appends exactly
  one row to the reservations table, with the identifier the response returns.
\<close>

theorem created_reservation_is_pending:
  "CreateReservation ev req db = (Inr resp, db') \<Longrightarrow>
     cr_Status resp = ''pending''
     \<and> (\<exists>r. reservations db' = reservations db @ [r] \<and> res_status r = ''pending''
             \<and> res_id r = cr_ReservationID resp)"
proof -
  assume a: "CreateReservation ev req db = (Inr resp, db')"
  from CreateReservation_ok [OF a]
  obtain rm :: room where "create_rows ev req db (room_price_per_hour rm) = (Inr resp, db')"
    by blast
  from create_rows_ok [OF this] show ?thesis
    by (auto simp: reservation_row_def)
qed

theorem created_reservation_is_pending_witness:
  "CreateReservation env_0 req_free db_0 = (Inr resp_free, db_1)
   \<and> cr_Status resp_free = ''pending''
   \<and> (\<exists>r. reservations db_1 = reservations db_0 @ [r] \<and> res_status r = ''pending''
           \<and> res_id r = cr_ReservationID resp_free)"
  using create_free created_reservation_is_pending [OF create_free] by simp

subsection \<open>Room capacity\<close>

lemma distinct_map_eq:
  "distinct (map f xs) \<Longrightarrow> x \<in> set xs \<Longrightarrow> y \<in> set xs \<Longrightarrow> f x = f y \<Longrightarrow> x = y"
  by (meson distinct_map inj_onD)

lemma available_room_Some:
  "available_room db rid = Some rm \<Longrightarrow>
     rm \<in> set (rooms db) \<and> room_id rm = rid \<and> room_status rm = ''available''"
  by (auto simp: available_room_def find_Some_iff)

lemma create_crowded:
  "CreateReservation env_0 req_crowded db_0 =
     (Inl ''visitor count exceeds room capacity of 10'', db_0)"
  by (simp add: unfold_create example_defs req_crowded_def units fmt_d_def digits.simps digit_def)

text \<open>
  C5. When the visitor count of a request exceeds the capacity of the requested
  room (the row of the rooms table with the request's room id, ids being unique),
  CreateReservation returns an error and the database is unchanged, whatever the
  requested interval, the stored reservations and the environment are.
\<close>

theorem over_capacity_rejected:
  assumes "distinct (map room_id (rooms db))"
    and "rm \<in> set (rooms db)" and "room_id rm = RoomID req"
    and "VisitorCount req > room_capacity rm"
  shows "\<exists>err. CreateReservation ev req db = (Inl err, db)"
proof (cases "CreateReservation ev req db")
  case (Pair res db')
  show ?thesis
  proof (cases res)
    case (Inl err)
    with Pair CreateReservation_error_keeps_db [of ev req db err db'] show ?thesis by simp
  next
    case (Inr resp)
    with Pair have "CreateReservation ev req db = (Inr resp, db')" by simp
    from CreateReservation_ok [OF this]
    obtain rm' where f: "available_room db (RoomID req) = Some rm'"
      and c: "VisitorCount req \<le> room_capacity rm'" by blast
    from available_room_Some [OF f] have "rm' \<in> set (rooms db)" "room_id rm' = RoomID req"
      by simp_all
    with assms have "rm' = rm" using distinct_map_eq [of room_id "rooms db" rm' rm] by simp
    with c assms show ?thesis by simp
  qed
qed

theorem over_capacity_rejected_witness:
  "distinct (map room_id (rooms db_0)) \<and> room_A \<in> set (rooms db_0)
   \<and> room_id room_A = RoomID req_crowded \<and> VisitorCount req_crowded > room_capacity room_A
   \<and> (\<exists>err. CreateReservation env_0 req_crowded db_0 = (Inl err, db_0))
   \<and> CreateReservation env_0 req_crowded db_0 =
       (Inl ''visitor count exceeds room capacity of 10'', db_0)"
proof -
  have h: "distinct (map room_id (rooms db_0))" "room_A \<in> set (rooms db_0)"
      "room_id room_A = RoomID req_crowded" "VisitorCount req_crowded > room_capacity room_A"
    by (simp_all add: example_defs req_crowded_def)
  from over_capacity_rejected [OF h, of env_0] h create_crowded show ?thesis by blast
qed

subsection \<open>A status update for an unknown reservation\<close>

lemma has_prefix_set: "has_prefix s sub \<Longrightarrow> set sub \<subseteq> set s"
  by (induction s sub rule: has_prefix.induct) auto

lemma Contains_set: "Contains s sub \<Longrightarrow> set sub \<subseteq> set s"
proof (induction s)
  case Nil
  then show ?case by simp
next
  case (Cons a s)
  then show ?case using has_prefix_set [of "a # s" sub] by auto
qed

lemma not_found_no_invalid_status:
  "CHR ''l'' \<notin> set rid \<Longrightarrow>
     \<not> Contains (''reservation not found with ID: '' @ rid) ''invalid status''"
  by (auto dest!: Contains_set)

text \<open>
  C7 (what the code does). When no reservation has the identifier of a status
  update, the service's error is \<^verbatim>\<open>reservation not found with ID: <id>\<close>; the handler
  compares it with the text \<^verbatim>\<open>reservation not found\<close>, which it never equals, and so
  answers 500 Internal Server Error, not 404 Not Found. The identifier is a UUID
  in text form, hexadecimal digits and hyphens, hence without the letter l.
\<close>

theorem unknown_reservation_is_internal_error:
  assumes "no_fault ev" and "IsValid (upd_Status req)"
    and "rowsAffected db (upd_ReservationID req) = 0"
    and "CHR ''l'' \<notin> set (upd_ReservationID req)"
  shows "Handler_UpdateReservationStatus ev req db =
           ((StatusInternalServerError,
             Inl (''reservation not found with ID: '' @ upd_ReservationID req)), db)
         \<and> StatusInternalServerError \<noteq> StatusNotFound"
proof -
  have "UpdateReservationStatus ev req db =
          (Inl (''reservation not found with ID: '' @ upd_ReservationID req), db)"
    using assms by (simp add: UpdateReservationStatus_def no_faultD Let_def)
  then show ?thesis
    using not_found_no_invalid_status [OF assms(4)]
    by (simp add: Handler_UpdateReservationStatus_def StatusInternalServerError_def
                  StatusNotFound_def)
qed

theorem unknown_reservation_is_internal_error_witness:
  "no_fault env_0 \<and> IsValid (upd_Status req_unknown)
   \<and> rowsAffected db_0 (upd_ReservationID req_unknown) = 0
   \<and> CHR ''l'' \<notin> set (upd_ReservationID req_unknown)
   \<and> Handler_UpdateReservationStatus env_0 req_unknown db_0 =
       ((500, Inl ''reservation not found with ID: 3f2504e0-4f89-11d3-9a0c-0305e82c3301''),
        db_0)"
proof -
  have h: "no_fault env_0" "IsValid (upd_Status req_unknown)"
     "rowsAffected db_0 (upd_ReservationID req_unknown) = 0"
     "CHR ''l'' \<notin> set (upd_ReservationID req_unknown)"
    by (simp_all add: no_fault_def failed_def IsValid_def rowsAffected_def
              example_defs req_unknown_def)
  from unknown_reservation_is_internal_error [OF h] h show ?thesis
    by (simp add: StatusInternalServerError_def req_unknown_def)
qed

subsection \<open>Request lines for snacks the catalog does not have\<close>

lemma find_filter_same:
  "(\<And>l. l \<in> set ls \<Longrightarrow> P l \<Longrightarrow> Q l) \<Longrightarrow> find P (filter Q ls) = find P ls"
  by (induction ls) auto

lemma select_snacks_known: "select_snacks db (known_lines db ls) = select_snacks db ls"
  unfolding select_snacks_def known_lines_def
  by (rule filter_cong) force+

lemma find_line_known:
  "s \<in> set (snacks db) \<Longrightarrow>
     find (\<lambda>l. SnackID l = snack_id s) (known_lines db ls) = find (\<lambda>l. SnackID l = snack_id s) ls"
  unfolding known_lines_def by (rule find_filter_same) auto

lemma order_snacks_known:
  "set rows \<subseteq> set (snacks db) \<Longrightarrow>
     order_snacks (known_lines db ls) rows acc = order_snacks ls rows acc"
proof (induction rows arbitrary: acc)
  case Nil
  then show ?case by simp
next
  case (Cons s rows)
  obtain t a where acc: "acc = (t, a)" by (cases acc)
  from Cons.prems have "s \<in> set (snacks db)" "set rows \<subseteq> set (snacks db)" by auto
  then show ?case using Cons.IH
    by (simp add: acc find_line_known split: option.splits)
qed

lemma price_snacks_known:
  "set rows \<subseteq> set (snacks db) \<Longrightarrow>
     price_snacks (known_lines db ls) rows acc = price_snacks ls rows acc"
proof (induction rows arbitrary: acc)
  case Nil
  then show ?case by simp
next
  case (Cons s rows)
  from Cons.prems have "s \<in> set (snacks db)" "set rows \<subseteq> set (snacks db)" by auto
  then show ?case using Cons.IH
    by (simp add: find_line_known split: option.splits)
qed

lemma select_snacks_subset: "set (select_snacks db ls) \<subseteq> set (snacks db)"
  by (auto simp: select_snacks_def)

lemma reservation_row_Snacks [simp]:
  "reservation_row ev (req\<lparr>Snacks := ls\<rparr>) t = reservation_row ev req t"
  by (simp add: reservation_row_def)

lemma create_rows_known:
  "create_rows ev (req\<lparr>Snacks := known_lines db (Snacks req)\<rparr>) db p = create_rows ev req db p"
  unfolding create_rows_def Let_def case_prod_beta
  by (simp add: select_snacks_known order_snacks_known [OF select_snacks_subset])

lemma CreateReservation_known:
  "CreateReservation ev (req\<lparr>Snacks := known_lines db (Snacks req)\<rparr>) db
     = CreateReservation ev req db"
  unfolding CreateReservation_def
  by (simp add: create_rows_known split: option.splits)

lemma CalculateReservationCost_known:
  "CalculateReservationCost ev (creq\<lparr>calc_Snacks := known_lines db (calc_Snacks creq)\<rparr>) db
     = CalculateReservationCost ev creq db"
  unfolding CalculateReservationCost_def Let_def
  by (simp add: select_snacks_known price_snacks_known [OF select_snacks_subset]
           split: option.splits)

lemma order_snacks_ids:
  "os_ID ` set (snd (order_snacks ls rows acc)) \<subseteq> os_ID ` set (snd acc) \<union> snack_id ` set rows"
proof (induction rows arbitrary: acc)
  case Nil
  then show ?case by simp
next
  case (Cons s rows)
  obtain t a where acc: "acc = (t, a)" by (cases acc)
  show ?case
  proof (cases "find (\<lambda>l. SnackID l = snack_id s) ls")
    case None
    then show ?thesis using Cons.IH [of "(t, a)"] by (auto simp: acc)
  next
    case (Some l)
    then show ?thesis
      using Cons.IH [of "(fadd t (fmul (snack_price s) (float64_of_int (Quantity l))),
          a @ [\<lparr>os_ID = snack_id s, os_Name = snack_name s,
                 os_Price = snack_price s, os_Quantity = Quantity l\<rparr>])"]
      by (auto simp: acc)
  qed
qed

lemma price_snacks_ids:
  "ps_ID ` set (price_snacks ls rows acc) \<subseteq> ps_ID ` set acc \<union> snack_id ` set rows"
proof (induction rows arbitrary: acc)
  case Nil
  then show ?case by simp
next
  case (Cons s rows)
  show ?case
  proof (cases "find (\<lambda>l. SnackID l = snack_id s) ls")
    case None
    then show ?thesis using Cons.IH [of acc] by auto
  next
    case (Some l)
    then show ?thesis
      using Cons.IH [of "acc @ [\<lparr>ps_ID = snack_id s, ps_Name = snack_name s,
          ps_Category = snack_category s, ps_Price = snack_price s, ps_Quantity = Quantity l\<rparr>]"]
      by auto
  qed
qed

lemma add_snack_costs_ids:
  "si_ID ` set (calc_SnackItems (add_snack_costs sns response))
     \<subseteq> si_ID ` set (calc_SnackItems response) \<union> ps_ID ` set sns"
proof (induction sns arbitrary: response)
  case Nil
  then show ?case by simp
next
  case (Cons sn sns)
  show ?case
    using Cons.IH [of "response\<lparr>calc_SnackItems := calc_SnackItems response @
                        [\<lparr>si_ID = ps_ID sn, si_Name = ps_Name sn, si_Category = ps_Category sn,
                          si_Price = ps_Price sn, si_Quantity = ps_Quantity sn,
                          si_Subtotal = fmul (ps_Price sn) (float64_of_int (ps_Quantity sn))\<rparr>],
                      calc_TotalCost := fadd (calc_TotalCost response)
                         (fmul (ps_Price sn) (float64_of_int (ps_Quantity sn)))\<rparr>"]
    by (auto simp: Let_def)
qed

lemma created_snack_rows:
  assumes "CreateReservation ev req db = (Inr resp, db')"
  shows "reservation_snacks db' = reservation_snacks db @
           map (snack_order_row (gen_id ev))
               (snd (order_snacks (Snacks req) (select_snacks db (Snacks req)) (0, [])))"
proof -
  from CreateReservation_ok [OF assms]
  obtain rm :: room where "create_rows ev req db (room_price_per_hour rm) = (Inr resp, db')"
    by blast
  from create_rows_ok [OF this] show ?thesis by simp
qed


lemma CalculateReservationCost_ok:
  assumes "CalculateReservationCost ev creq db = Inr cresp"
  shows "\<exists>rm. available_room db (calc_RoomID creq) = Some rm
    \<and> \<not> time_violation (now ev) (calc_StartTime creq) (calc_EndTime creq)
    \<and> cresp = add_snack_costs
       (price_snacks (calc_Snacks creq) (select_snacks db (calc_Snacks creq)) [])
       \<lparr>calc_Room = \<lparr>rc_ID = room_id rm, rc_Name = room_name rm,
                     rc_PricePerHour = room_price_per_hour rm,
                     rc_TotalHours = Hours (Sub (calc_EndTime creq) (calc_StartTime creq)),
                     rc_TotalCost = fmul (room_price_per_hour rm)
                        (Hours (Sub (calc_EndTime creq) (calc_StartTime creq)))\<rparr>,
        calc_SnackItems = [],
        calc_TotalCost = fmul (room_price_per_hour rm)
                        (Hours (Sub (calc_EndTime creq) (calc_StartTime creq)))\<rparr>"
proof -
  have tv: "\<not> time_violation (now ev) (calc_StartTime creq) (calc_EndTime creq)"
    using assms time_checks_iff [of "calc_StartTime creq" "now ev" "calc_EndTime creq"]
    unfolding CalculateReservationCost_def by (auto split: if_splits)
  show ?thesis using assms tv
    unfolding CalculateReservationCost_def Let_def
    by (auto split: if_splits option.splits)
qed


lemma calculated_items:
  assumes "CalculateReservationCost ev creq db = Inr cresp"
  shows "si_ID ` set (calc_SnackItems cresp) \<subseteq> snack_id ` set (snacks db)"
proof -
  let ?rows = "select_snacks db (calc_Snacks creq)"
  let ?sns = "price_snacks (calc_Snacks creq) ?rows []"
  from CalculateReservationCost_ok [OF assms]
  obtain r0 where eq: "cresp = add_snack_costs ?sns r0" and e: "calc_SnackItems r0 = []"
    by auto
  have "si_ID ` set (calc_SnackItems cresp) \<subseteq> ps_ID ` set ?sns"
    using add_snack_costs_ids [of ?sns r0] by (simp add: eq e)
  also have "\<dots> \<subseteq> snack_id ` set ?rows"
    using price_snacks_ids [of "calc_Snacks creq" ?rows "[]"] by simp
  also have "\<dots> \<subseteq> snack_id ` set (snacks db)"
    using select_snacks_subset [of db "calc_Snacks creq"] by (rule image_mono)
  finally show ?thesis .
qed

lemma created_snack_ids:
  "rs_snack_id ` set (map (snack_order_row (gen_id ev))
               (snd (order_snacks (Snacks req) (select_snacks db (Snacks req)) (0, []))))
          \<subseteq> snack_id ` set (snacks db)"
proof -
  let ?rows = "select_snacks db (Snacks req)"
  have "rs_snack_id ` set (map (snack_order_row (gen_id ev))
               (snd (order_snacks (Snacks req) ?rows (0, []))))
        = os_ID ` set (snd (order_snacks (Snacks req) ?rows (0, [])))"
    by (simp add: image_image snack_order_row_def)
  also have "\<dots> \<subseteq> snack_id ` set ?rows"
    using order_snacks_ids [of "Snacks req" ?rows "(0, [])"] by simp
  also have "\<dots> \<subseteq> snack_id ` set (snacks db)"
    using select_snacks_subset [of db "Snacks req"] by (rule image_mono)
  finally show ?thesis .
qed

lemmas unfold_calc =
  CalculateReservationCost_def Before_def After_def Sub_def maxDuration_def minDuration_def
  failed_def available_room_def select_snacks_def Hours_def Let_def float_eval

lemmas unfold_calc_folded =
  CalculateReservationCost_def Before_def After_def Sub_def maxDuration_def minDuration_def
  failed_def available_room_def select_snacks_def Let_def

lemma calc_free_cost: "CalculateReservationCost env_0 calc_free db_0 = Inr calc_resp_free"
  by (simp add: unfold_calc example_defs units)

text \<open>
  C10. A request line whose snack id is not in the catalog does not make
  CreateReservation or CalculateReservationCost fail: either call gives exactly the
  result it gives for the request without such lines, so the line adds nothing to
  the total. Every snack row a creation stores, and every item a calculation
  returns, names a snack of the catalog.
\<close>

theorem unknown_snack_lines_omitted:
  "CreateReservation ev (req\<lparr>Snacks := known_lines db (Snacks req)\<rparr>) db
     = CreateReservation ev req db
   \<and> CalculateReservationCost ev (creq\<lparr>calc_Snacks := known_lines db (calc_Snacks creq)\<rparr>) db
     = CalculateReservationCost ev creq db
   \<and> (\<forall>resp db'. CreateReservation ev req db = (Inr resp, db') \<longrightarrow>
        (\<exists>new. reservation_snacks db' = reservation_snacks db @ new
               \<and> rs_snack_id ` set new \<subseteq> snack_id ` set (snacks db)))
   \<and> (\<forall>cresp. CalculateReservationCost ev creq db = Inr cresp \<longrightarrow>
        si_ID ` set (calc_SnackItems cresp) \<subseteq> snack_id ` set (snacks db))"
proof (intro conjI allI impI)
  show "CreateReservation ev (req\<lparr>Snacks := known_lines db (Snacks req)\<rparr>) db
     = CreateReservation ev req db"
    by (rule CreateReservation_known)
next
  show "CalculateReservationCost ev (creq\<lparr>calc_Snacks := known_lines db (calc_Snacks creq)\<rparr>) db
     = CalculateReservationCost ev creq db"
    by (rule CalculateReservationCost_known)
next
  fix resp db'
  assume "CreateReservation ev req db = (Inr resp, db')"
  from created_snack_rows [OF this] created_snack_ids [of ev req db]
  show "\<exists>new. reservation_snacks db' = reservation_snacks db @ new
               \<and> rs_snack_id ` set new \<subseteq> snack_id ` set (snacks db)"
    by blast
next
  fix cresp
  assume "CalculateReservationCost ev creq db = Inr cresp"
  then show "si_ID ` set (calc_SnackItems cresp) \<subseteq> snack_id ` set (snacks db)"
    by (rule calculated_items)
qed


theorem unknown_snack_lines_omitted_witness:
  "known_lines db_0 (Snacks req_ghost) = Snacks req_free
   \<and> CreateReservation env_0 req_ghost db_0 = (Inr resp_free, db_1)
   \<and> CalculateReservationCost env_0 calc_ghost db_0 = Inr calc_resp_free
   \<and> CalculateReservationCost env_0 calc_free db_0 = Inr calc_resp_free"
proof -
  have k: "known_lines db_0 (Snacks req_ghost) = Snacks req_free"
    by (simp add: known_lines_def example_defs req_ghost_def calc_ghost_def)
  have r: "req_ghost\<lparr>Snacks := Snacks req_free\<rparr> = req_free"
    by (simp add: example_defs req_ghost_def calc_ghost_def)
  have c: "calc_ghost\<lparr>calc_Snacks := Snacks req_free\<rparr> = calc_free"
    by (simp add: example_defs req_ghost_def calc_ghost_def)
  have s: "calc_Snacks calc_ghost = Snacks req_ghost"
    by (simp add: example_defs req_ghost_def calc_ghost_def)
  from unknown_snack_lines_omitted
         [where ev = env_0 and req = req_ghost and db = db_0 and creq = calc_ghost]
  have "CreateReservation env_0 req_ghost db_0 = CreateReservation env_0 req_free db_0"
    and "CalculateReservationCost env_0 calc_ghost db_0
           = CalculateReservationCost env_0 calc_free db_0"
    by (simp_all add: k r c s)
  with k create_free calc_free_cost show ?thesis by simp
qed

subsection \<open>Prices copied at booking time\<close>

lemma joined_reservation_reprice [simp]:
  "joined_reservation (reprice f db) rid = joined_reservation db rid"
  by (simp add: joined_reservation_def reprice_def)

lemma detail_item_reprice [simp]:
  "detail_item (rs, s\<lparr>snack_price := p\<rparr>) = detail_item (rs, s)"
  by (simp add: detail_item_def)

lemma detail_items_reprice:
  "map detail_item (joined_snacks (reprice f db) rid) = map detail_item (joined_snacks db rid)"
  unfolding joined_snacks_def reprice_def
  by (simp add: map_concat o_def if_distrib [of "map detail_item"] cong: if_cong)

lemma joined_snacks_empty_reprice:
  "joined_snacks (reprice f db) rid = [] \<longleftrightarrow> joined_snacks db rid = []"
  using detail_items_reprice [of f db rid] by (metis map_is_Nil_conv)

lemma GetReservationByID_reprice:
  "GetReservationByID ev rid (reprice f db) = GetReservationByID ev rid db"
  unfolding GetReservationByID_def Let_def
  by (simp add: detail_items_reprice joined_snacks_empty_reprice
           split: list.splits prod.splits)

lemma order_snacks_prices:
  "(\<forall>o' \<in> set (snd acc). \<exists>s \<in> set (snacks db). snack_id s = os_ID o' \<and> snack_price s = os_Price o')
   \<Longrightarrow> set rows \<subseteq> set (snacks db)
   \<Longrightarrow> \<forall>o' \<in> set (snd (order_snacks ls rows acc)).
         \<exists>s \<in> set (snacks db). snack_id s = os_ID o' \<and> snack_price s = os_Price o'"
proof (induction rows arbitrary: acc)
  case Nil
  then show ?case by simp
next
  case (Cons s rows)
  obtain t a where acc: "acc = (t, a)" by (cases acc)
  from Cons.prems have s: "s \<in> set (snacks db)" and r: "set rows \<subseteq> set (snacks db)" by auto
  show ?case
  proof (cases "find (\<lambda>l. SnackID l = snack_id s) ls")
    case None
    then show ?thesis using Cons.IH [of "(t, a)"] Cons.prems(1) r by (simp add: acc)
  next
    case (Some l)
    let ?acc' = "(fadd t (fmul (snack_price s) (float64_of_int (Quantity l))),
          a @ [\<lparr>os_ID = snack_id s, os_Name = snack_name s,
                 os_Price = snack_price s, os_Quantity = Quantity l\<rparr>])"
    have "\<forall>o' \<in> set (snd ?acc'). \<exists>s \<in> set (snacks db). snack_id s = os_ID o' \<and> snack_price s = os_Price o'"
      using Cons.prems(1) s by (auto simp: acc)
    from Cons.IH [OF this r] Some show ?thesis by (simp add: acc)
  qed
qed

lemma detail_reads_stored:
  assumes "GetReservationByID ev rid db = Inr d"
  shows "det_TotalCost d = det_Price d
     \<and> det_TotalCost d \<in> res_price ` set (reservations db)
     \<and> det_Snacks d = map detail_item (joined_snacks db rid)"
proof -
  have "joined_reservation db rid \<noteq> []"
    using assms unfolding GetReservationByID_def by (auto split: if_splits)
  then obtain r rm u rest where j: "joined_reservation db rid = (r, rm, u) # rest"
    by (cases "joined_reservation db rid") auto
  then have "(r, rm, u) \<in> set (joined_reservation db rid)" by simp
  then have "r \<in> set (reservations db)" by (auto simp: joined_reservation_def)
  then show ?thesis
    using assms j unfolding GetReservationByID_def Let_def
    by (auto split: if_splits)
qed

lemma created_snack_prices:
  "\<forall>o' \<in> set (snd (order_snacks (Snacks req) (select_snacks db (Snacks req)) (0, []))).
      \<exists>s \<in> set (snacks db). snack_id s = os_ID o' \<and> snack_price s = os_Price o'"
  by (rule order_snacks_prices) (simp_all add: select_snacks_subset)

lemmas unfold_get =
  GetReservationByID_def joined_reservation_def joined_snacks_def detail_item_def failed_def
  Let_def float_eval

lemma get_booking_2: "GetReservationByID env_0 ''res-2'' db_1 = Inr detail_2"
  by (simp add: unfold_get example_defs detail_2_def)

text \<open>
  C8. The snack rows a creation stores carry the reservation's identifier and the
  price the catalog has for the snack at that moment. GetReservationByID takes
  each line's price and quantity from the stored row, computes the subtotal from
  them and reports the stored reservation price as the total; so its result is the
  same after any change of the catalog's prices.
\<close>

theorem snack_prices_are_copied:
  "(\<forall>resp db'. CreateReservation ev req db = (Inr resp, db') \<longrightarrow>
      (\<exists>new. reservation_snacks db' = reservation_snacks db @ new
         \<and> (\<forall>row \<in> set new. rs_reservation_id row = cr_ReservationID resp
               \<and> (\<exists>s \<in> set (snacks db). snack_id s = rs_snack_id row
                                         \<and> snack_price s = rs_price row))))
   \<and> GetReservationByID ev_read rid (reprice f db_read) = GetReservationByID ev_read rid db_read
   \<and> (\<forall>d. GetReservationByID ev_read rid db_read = Inr d \<longrightarrow>
         det_TotalCost d = det_Price d
         \<and> det_TotalCost d \<in> res_price ` set (reservations db_read)
         \<and> det_Snacks d = map detail_item (joined_snacks db_read rid))"
proof -
  have p1: "\<forall>resp db'. CreateReservation ev req db = (Inr resp, db') \<longrightarrow>
      (\<exists>new. reservation_snacks db' = reservation_snacks db @ new
         \<and> (\<forall>row \<in> set new. rs_reservation_id row = cr_ReservationID resp
               \<and> (\<exists>s \<in> set (snacks db). snack_id s = rs_snack_id row
                                         \<and> snack_price s = rs_price row)))"
  proof (intro allI impI)
    fix resp db'
    assume a: "CreateReservation ev req db = (Inr resp, db')"
    let ?ordered = "snd (order_snacks (Snacks req) (select_snacks db (Snacks req)) (0, []))"
    from CreateReservation_ok [OF a]
    obtain rm :: room where "create_rows ev req db (room_price_per_hour rm) = (Inr resp, db')"
      by blast
    from create_rows_ok [OF this] have id: "cr_ReservationID resp = gen_id ev" by simp
    have "\<forall>row \<in> set (map (snack_order_row (gen_id ev)) ?ordered).
            rs_reservation_id row = cr_ReservationID resp
            \<and> (\<exists>s \<in> set (snacks db). snack_id s = rs_snack_id row
                                      \<and> snack_price s = rs_price row)"
      using created_snack_prices [of req db] by (simp add: snack_order_row_def id)
    with created_snack_rows [OF a]
    show "\<exists>new. reservation_snacks db' = reservation_snacks db @ new
           \<and> (\<forall>row \<in> set new. rs_reservation_id row = cr_ReservationID resp
                 \<and> (\<exists>s \<in> set (snacks db). snack_id s = rs_snack_id row
                                           \<and> snack_price s = rs_price row))"
      by blast
  qed
  have p2: "GetReservationByID ev_read rid (reprice f db_read) = GetReservationByID ev_read rid db_read"
    by (rule GetReservationByID_reprice)
  have p3: "\<forall>d. GetReservationByID ev_read rid db_read = Inr d \<longrightarrow>
         det_TotalCost d = det_Price d
         \<and> det_TotalCost d \<in> res_price ` set (reservations db_read)
         \<and> det_Snacks d = map detail_item (joined_snacks db_read rid)"
    using detail_reads_stored [of ev_read rid db_read] by blast
  from p1 p2 p3 show ?thesis by (intro conjI)
qed

theorem snack_prices_are_copied_witness:
  "CreateReservation env_0 req_free db_0 = (Inr resp_free, db_1)
   \<and> snacks (reprice double_prices db_1)
       = [coffee\<lparr>snack_price := 10\<rparr>, cake\<lparr>snack_price := 24\<rparr>]
   \<and> GetReservationByID env_0 ''res-2'' db_1 = Inr detail_2
   \<and> GetReservationByID env_0 ''res-2'' (reprice double_prices db_1) = Inr detail_2
   \<and> det_TotalCost detail_2 = 222"
proof -
  have p: "snacks (reprice double_prices db_1)
       = [coffee\<lparr>snack_price := 10\<rparr>, cake\<lparr>snack_price := 24\<rparr>]"
    by (simp add: reprice_def double_prices_def example_defs)
  have t: "det_TotalCost detail_2 = 222"
    by (simp add: detail_2_def)
  from snack_prices_are_copied
         [where ev_read = env_0 and rid = "''res-2''" and f = double_prices and db_read = db_1]
  have "GetReservationByID env_0 ''res-2'' (reprice double_prices db_1)
          = GetReservationByID env_0 ''res-2'' db_1"
    by simp
  with create_free get_booking_2 p t show ?thesis by simp
qed

subsection \<open>No double booking\<close>

lemma no_double_booking_append:
  "no_double_booking (rs @ [r]) \<longleftrightarrow> no_double_booking rs \<and> (\<forall>x \<in> set rs. \<not> clash x r)"
  by (induction rs) auto

lemma no_double_booking_map:
  "(\<And>a b. a \<in> set rs \<Longrightarrow> b \<in> set rs \<Longrightarrow> clash (f a) (f b) \<Longrightarrow> clash a b)
     \<Longrightarrow> no_double_booking rs \<Longrightarrow> no_double_booking (map f rs)"
proof (induction rs)
  case Nil
  then show ?case by simp
next
  case (Cons r rs)
  have "no_double_booking (map f rs)"
    using Cons by simp
  moreover have "\<not> clash (f r) (f x)" if "x \<in> set rs" for x
    using Cons.prems(1) [of r x] Cons.prems(2) that by auto
  ultimately show ?case by simp
qed

lemma overlappingCount_0:
  "overlappingCount db rid S E = 0 \<longleftrightarrow>
     (\<forall>r \<in> set (reservations db).
        \<not> (res_room_id r = rid \<and> res_status r \<noteq> ''cancelled''
           \<and> overlap_clause S E (res_start_time r) (res_end_time r)))"
  by (simp add: overlappingCount_def overlapping_rows_def filter_empty_conv)

lemma no_clash_with_new_row:
  assumes "overlappingCount db (RoomID req) (StartTime req) (EndTime req) = 0"
    and "x \<in> set (reservations db)"
  shows "\<not> clash x (reservation_row ev req t)"
proof
  assume c: "clash x (reservation_row ev req t)"
  then have "spec_conflict (StartTime req) (EndTime req) (res_start_time x) (res_end_time x)"
    by (auto simp: clash_def reservation_row_def spec_conflict_def)
  then have "overlap_clause (StartTime req) (EndTime req) (res_start_time x) (res_end_time x)"
    by (rule spec_conflict_imp_overlap_clause)
  moreover from c have "res_room_id x = RoomID req" "res_status x \<noteq> ''cancelled''"
    by (auto simp: clash_def reservation_row_def)
  ultimately show False using assms by (auto simp: overlappingCount_0)
qed

lemma CreateReservation_keeps_invariant:
  assumes "no_double_booking (reservations db)"
  shows "no_double_booking (reservations (snd (CreateReservation ev req db)))"
proof (cases "CreateReservation ev req db")
  case (Pair res db')
  show ?thesis
  proof (cases res)
    case (Inl err)
    with Pair CreateReservation_error_keeps_db [of ev req db err db'] assms show ?thesis by simp
  next
    case (Inr resp)
    with Pair have a: "CreateReservation ev req db = (Inr resp, db')" by simp
    from CreateReservation_ok [OF a]
    obtain rm :: room where
      n: "overlappingCount db (RoomID req) (StartTime req) (EndTime req) = 0"
      and c: "create_rows ev req db (room_price_per_hour rm) = (Inr resp, db')"
      by blast
    from create_rows_ok [OF c]
    have "reservations db' = reservations db @ [reservation_row ev req (cr_TotalCost resp)]"
      by simp
    then show ?thesis
      using assms no_clash_with_new_row [OF n] by (simp add: a no_double_booking_append)
  qed
qed

lemma UpdateReservationStatus_db:
  "snd (UpdateReservationStatus ev req db) = db
   \<or> snd (UpdateReservationStatus ev req db)
       = db\<lparr>reservations :=
              map (set_status ev (upd_ReservationID req) (upd_Status req)) (reservations db)\<rparr>"
  unfolding UpdateReservationStatus_def Let_def
  by (simp split: list.splits prod.splits)

lemma set_status_clash:
  assumes "\<not> revives db req" and "a \<in> set (reservations db)" and "b \<in> set (reservations db)"
    and "clash (set_status ev (upd_ReservationID req) (upd_Status req) a)
               (set_status ev (upd_ReservationID req) (upd_Status req) b)"
  shows "clash a b"
  using assms unfolding revives_def clash_def set_status_def
  by (auto split: if_splits)

lemma UpdateReservationStatus_keeps_invariant:
  assumes "no_double_booking (reservations db)" and "\<not> revives db req"
  shows "no_double_booking (reservations (snd (UpdateReservationStatus ev req db)))"
proof -
  have "no_double_booking
          (map (set_status ev (upd_ReservationID req) (upd_Status req)) (reservations db))"
    using assms(1) by (rule no_double_booking_map [rotated]) (rule set_status_clash [OF assms(2)])
  then show ?thesis
    using UpdateReservationStatus_db [of ev req db] assms(1) by auto
qed

lemmas unfold_update =
  UpdateReservationStatus_def IsValid_def failed_def rowsAffected_def set_status_def
  joined_reservation_def reservation_event_def Let_def

lemma cancel_booking_1:
  "snd (UpdateReservationStatus env_0 req_cancel_1 db_0) = db_cancelled"
  by (simp add: unfold_update example_defs req_cancel_1_def db_cancelled_def)

lemma rebook: "snd (CreateReservation env_0 req_clash db_cancelled) = db_rebooked"
  by (simp add: unfold_create
            example_defs req_clash_def db_cancelled_def db_rebooked_def booking_3_def units)

lemma revive_booking_1:
  "snd (UpdateReservationStatus env_0 req_confirm_1 db_rebooked) = db_revived"
  by (simp add: unfold_update
            example_defs req_confirm_1_def db_rebooked_def db_revived_def booking_3_def)

lemma inv_rebooked: "no_double_booking (reservations db_rebooked)"
  by (simp add: clash_def spec_conflict_def example_defs db_rebooked_def booking_3_def units)

lemma not_inv_revived: "\<not> no_double_booking (reservations db_revived)"
  by (simp add: clash_def spec_conflict_def example_defs db_revived_def booking_3_def units)

text \<open>
  C6 (as the code has it). When no two stored reservations clash, none do after
  CreateReservation, and none do after an UpdateReservationStatus that does not
  give a cancelled reservation another status. The update checks no overlap, so
  setting a cancelled reservation back to an active status can break the
  invariant, as the instance below shows.
\<close>

theorem no_double_booking_preserved:
  "no_double_booking (reservations db) \<Longrightarrow>
     no_double_booking (reservations (snd (CreateReservation ev req db)))
     \<and> (\<not> revives db ureq \<longrightarrow>
          no_double_booking (reservations (snd (UpdateReservationStatus ev_upd ureq db))))"
  using CreateReservation_keeps_invariant UpdateReservationStatus_keeps_invariant by blast

theorem no_double_booking_preserved_witness:
  "no_double_booking (reservations db_0) \<and> \<not> revives db_0 req_cancel_1
   \<and> snd (CreateReservation env_0 req_free db_0) = db_1
   \<and> no_double_booking (reservations db_1)
   \<and> snd (UpdateReservationStatus env_0 req_cancel_1 db_0) = db_cancelled
   \<and> no_double_booking (reservations db_cancelled)"
proof -
  have i: "no_double_booking (reservations db_0)"
    by (simp add: example_defs req_cancel_1_def)
  have r: "\<not> revives db_0 req_cancel_1"
    by (simp add: revives_def example_defs req_cancel_1_def)
  from no_double_booking_preserved
         [where db = db_0 and ev = env_0 and req = req_free and ureq = req_cancel_1
            and ev_upd = env_0, OF i]
  show ?thesis using i r create_free cancel_booking_1 by simp
qed

text \<open>
  The instance against C6 as stated: \<open>booking_1\<close> is cancelled, \<open>req_clash\<close> books the
  freed slot, and \<open>booking_1\<close> is then set to confirmed. Before the last update no two
  reservations clash; after it two active reservations of room A overlap.
\<close>

theorem revival_breaks_no_double_booking:
  "snd (UpdateReservationStatus env_0 req_cancel_1 db_0) = db_cancelled
   \<and> snd (CreateReservation env_0 req_clash db_cancelled) = db_rebooked
   \<and> no_double_booking (reservations db_rebooked)
   \<and> snd (UpdateReservationStatus env_0 req_confirm_1 db_rebooked) = db_revived
   \<and> \<not> no_double_booking (reservations db_revived)"
  using cancel_booking_1 rebook inv_rebooked revive_booking_1 not_inv_revived by simp

subsection \<open>Conflicts and cancellation\<close>


lemma time_ok_checks:
  assumes "\<not> time_violation (now ev) (StartTime req) (EndTime req)"
  shows "\<not> Before (StartTime req) (now ev)" "After (EndTime req) (StartTime req)"
    "\<not> Sub (EndTime req) (StartTime req) < 30 * Minute"
    "\<not> Sub (EndTime req) (StartTime req) > 24 * Hour"
    "\<not> Before (EndTime req) (StartTime req)"
    "StartTime req < EndTime req"
  using assms time_checks_iff [of "StartTime req" "now ev" "EndTime req"]
  by (auto simp: Before_def After_def)

lemma CreateReservation_checked:
  assumes "no_fault ev" and "\<not> time_violation (now ev) (StartTime req) (EndTime req)"
    and "available_room db (RoomID req) = Some rm" and "VisitorCount req \<le> room_capacity rm"
  shows "CreateReservation ev req db =
           (if overlappingCount db (RoomID req) (StartTime req) (EndTime req) > 0
            then (Inl ''room is already booked for the selected time period'', db)
            else create_rows ev req db (room_price_per_hour rm))"
  using assms time_ok_checks [OF assms(2)]
  by (simp add: CreateReservation_def no_faultD)

lemma no_conflict_count_0:
  assumes "valid_time_range db" and "S < E"
    and "\<forall>r. \<not> conflicting db rid S E r"
  shows "overlappingCount db rid S E = 0"
proof -
  have "\<not> (res_room_id r = rid \<and> res_status r \<noteq> ''cancelled''
           \<and> overlap_clause S E (res_start_time r) (res_end_time r))"
    if "r \<in> set (reservations db)" for r
  proof -
    from that assms(1) have "res_start_time r < res_end_time r"
      by (auto simp: valid_time_range_def)
    then have "overlap_clause S E (res_start_time r) (res_end_time r)
                 = spec_conflict S E (res_start_time r) (res_end_time r)"
      using assms(2) by (auto simp: overlap_clause_def spec_conflict_def)
    then show ?thesis using assms(3) that by (auto simp: conflicting_def)
  qed
  then show ?thesis by (simp add: overlappingCount_0)
qed




lemma available_room_after_cancel [simp]:
  "available_room (db\<lparr>reservations := rs\<rparr>) rid = available_room db rid"
  by (simp add: available_room_def)












subsection \<open>The total cost\<close>

lemma order_snacks_total:
  "fst (order_snacks ls rows acc) = foldl fadd (fst acc) (concat (map (row_subtotals ls) rows))"
proof (induction rows arbitrary: acc)
  case Nil
  then show ?case by simp
next
  case (Cons s rows)
  obtain t a where acc: "acc = (t, a)" by (cases acc)
  show ?case
    by (cases "find (\<lambda>l. SnackID l = snack_id s) ls")
       (simp_all add: acc Cons.IH row_subtotals_def line_subtotal_def)
qed

lemma price_snacks_subtotals:
  "map priced_subtotal (price_snacks ls rows acc)
     = map priced_subtotal acc @ concat (map (row_subtotals ls) rows)"
proof (induction rows arbitrary: acc)
  case Nil
  then show ?case by simp
next
  case (Cons s rows)
  show ?case
  proof (cases "find (\<lambda>l. SnackID l = snack_id s) ls")
    case None
    then have "row_subtotals ls s = []" by (simp add: row_subtotals_def)
    with None Cons.IH [of acc] show ?thesis by simp
  next
    case (Some l)
    let ?sn = "\<lparr>ps_ID = snack_id s, ps_Name = snack_name s, ps_Category = snack_category s,
                ps_Price = snack_price s, ps_Quantity = Quantity l\<rparr>"
    from Some have r: "row_subtotals ls s = [line_subtotal (s, l)]"
      by (simp add: row_subtotals_def)
    have p: "priced_subtotal ?sn = line_subtotal (s, l)"
      by (simp add: priced_subtotal_def line_subtotal_def)
    from Some Cons.IH [of "acc @ [?sn]"] show ?thesis by (simp add: r p)
  qed
qed

lemma add_snack_costs_total:
  "calc_TotalCost (add_snack_costs sns response)
     = foldl fadd (calc_TotalCost response) (map priced_subtotal sns)"
  by (induction sns arbitrary: response) (simp_all add: Let_def priced_subtotal_def)

lemma concat_map_filter_empty:
  "(\<And>x. x \<in> set xs \<Longrightarrow> \<not> P x \<Longrightarrow> f x = []) \<Longrightarrow>
     concat (map f (filter P xs)) = concat (map f xs)"
  by (induction xs) auto

lemma row_subtotals_unlisted:
  "snack_id s \<notin> SnackID ` set ls \<Longrightarrow> row_subtotals ls s = []"
proof -
  assume "snack_id s \<notin> SnackID ` set ls"
  then have "find (\<lambda>l. SnackID l = snack_id s) ls = None"
    by (auto simp: find_None_iff image_iff)
  then show ?thesis by (simp add: row_subtotals_def)
qed

lemma selected_subtotals:
  "concat (map (row_subtotals ls) (select_snacks db ls))
     = concat (map (row_subtotals ls) (snacks db))"
  unfolding select_snacks_def
  by (rule concat_map_filter_empty) (simp add: row_subtotals_unlisted)

lemma row_subtotals_distinct:
  assumes "distinct (map SnackID ls)"
  shows "row_subtotals ls s
           = map line_subtotal
               (concat (map (\<lambda>l. if SnackID l = snack_id s then [(s, l)] else []) ls))"
  using assms
proof (induction ls)
  case Nil
  then show ?case by (simp add: row_subtotals_def)
next
  case (Cons l ls)
  then have n: "SnackID l \<notin> SnackID ` set ls" and d: "distinct (map SnackID ls)" by auto
  show ?case
  proof (cases "SnackID l = snack_id s")
    case True
    with n have "row_subtotals ls s = []" by (simp add: row_subtotals_unlisted)
    with Cons.IH [OF d] True show ?thesis by (simp add: row_subtotals_def)
  next
    case False
    with Cons.IH [OF d] show ?thesis by (simp add: row_subtotals_def)
  qed
qed

lemma rows_subtotals_eq_lines:
  assumes "distinct (map SnackID ls)"
  shows "concat (map (row_subtotals ls) (snacks db)) = map line_subtotal (priced_lines db ls)"
proof -
  have "concat (map (row_subtotals ls) cat)
          = map line_subtotal
              (concat (map (\<lambda>s. concat (map (\<lambda>l. if SnackID l = snack_id s then [(s, l)] else []) ls))
                           cat))" for cat
    by (induction cat) (simp_all add: row_subtotals_distinct [OF assms])
  then show ?thesis by (simp add: priced_lines_def)
qed

lemma snack_total_formula:
  assumes "distinct (map SnackID ls)"
  shows "fst (order_snacks ls (select_snacks db ls) (0, []))
           = foldl fadd 0 (map line_subtotal (priced_lines db ls))"
  by (simp add: order_snacks_total selected_subtotals rows_subtotals_eq_lines [OF assms])


lemma Hours_exact: "\<not> time_violation t S E \<Longrightarrow> Hours (Sub E S) = Hours (E - S)"
  by (simp add: Sub_exact)

lemma CalculateReservationCost_checked:
  assumes "no_fault ev"
    and "\<not> time_violation (now ev) (calc_StartTime creq) (calc_EndTime creq)"
    and "available_room db (calc_RoomID creq) = Some rm"
  shows "\<exists>cresp. CalculateReservationCost ev creq db = Inr cresp
           \<and> calc_TotalCost cresp
               = foldl fadd
                   (fmul (room_price_per_hour rm)
                         (Hours (Sub (calc_EndTime creq) (calc_StartTime creq))))
                   (concat (map (row_subtotals (calc_Snacks creq)) (snacks db)))"
proof -
  have t: "\<not> Before (calc_StartTime creq) (now ev)" "After (calc_EndTime creq) (calc_StartTime creq)"
    "\<not> Sub (calc_EndTime creq) (calc_StartTime creq) < 30 * Minute"
    "\<not> Sub (calc_EndTime creq) (calc_StartTime creq) > 24 * Hour"
    using assms(2) time_checks_iff [of "calc_StartTime creq" "now ev" "calc_EndTime creq"]
    by auto
  show ?thesis
    using assms(1,3) t
    by (simp add: CalculateReservationCost_def no_faultD Let_def add_snack_costs_total
                  price_snacks_subtotals selected_subtotals)
qed

lemma one_line_same_total:
  assumes "length xs \<le> 1"
  shows "foldl fadd (room_cost_of p S E) (map line_subtotal xs)
           = fadd (room_cost_of p S E) (foldl fadd 0 (map line_subtotal xs))"
proof (cases xs)
  case Nil
  then show ?thesis by (simp add: fadd_def room_cost_of_def fmul_idem)
next
  case (Cons sl rest)
  with assms have "rest = []" by simp
  with Cons obtain s l where "xs = [(s, l)]" by (cases sl) simp
  then show ?thesis by (simp add: fadd_def line_subtotal_def fmul_idem)
qed

lemmas unfold_spec =
  spec_total_cost_def running_total_cost_def room_cost_of_def priced_lines_def
  line_subtotal_def Hours_def float_eval

lemma spec_free:
  "spec_total_cost db_0 (room_price_per_hour room_A) (StartTime req_free) (EndTime req_free)
        (Snacks req_free) = 222"
  by (simp add: unfold_spec example_defs units)

lemma one_cost: "fst (CreateReservation env_0 req_one db_0) = Inr resp_one"
  by (simp add: unfold_create example_defs req_one_def resp_one_def units)

lemma one_calc:
  "map_sum id calc_TotalCost (CalculateReservationCost env_0 (calc_of req_one) db_0) = Inr 210"
  by (simp add: unfold_calc calc_of_def example_defs req_one_def units)

lemma one_priced: "length (priced_lines db_0 (Snacks req_one)) = 1"
  by (simp add: priced_lines_def example_defs req_one_def)

lemma twice_cost: "fst (CreateReservation env_0 req_twice db_0) = Inr resp_twice"
  by (simp add: unfold_create example_defs req_twice_def resp_twice_def units)

lemma twice_spec:
  "spec_total_cost db_0 (room_price_per_hour room_A) (StartTime req_twice)
        (EndTime req_twice) (Snacks req_twice) = 215"
  by (simp add: unfold_spec example_defs req_twice_def units)

lemma tea_price: "float64 (11 / 10) = 4953959590107546 / 2 ^ 52"
  by (rule float64_frac [where m = 4953959590107546, simplified]) simp_all

lemma biscuit_price: "float64 (1 / 5) = 7205759403792794 / 2 ^ 55"
  by (rule float64_frac [where m = 7205759403792794, simplified]) simp_all

lemma tea_subtotal: "fmul (float64 (11 / 10)) 1 = 4953959590107546 / 2 ^ 52"
  unfolding fmul_def tea_price
  by (rule float64_frac [where m = 4953959590107546, simplified]) simp_all

lemma biscuit_subtotal: "fmul (float64 (1 / 5)) 3 = 5404319552844596 / 2 ^ 53"
  unfolding fmul_def biscuit_price
  by (rule float64_frac_tie [where m = 5404319552844596, simplified]) simp_all

lemma snacks_first:
  "fadd (fadd 0 (4953959590107546 / 2 ^ 52)) (5404319552844596 / 2 ^ 53)
     = 7656119366529844 / 2 ^ 52"
proof -
  have "fadd 0 (4953959590107546 / 2 ^ 52) = 4953959590107546 / 2 ^ 52"
    unfolding fadd_def
    by (rule float64_frac [where m = 4953959590107546, simplified]) simp_all
  then show ?thesis
    unfolding fadd_def
    by (simp only:) (rule float64_frac [where m = 7656119366529844, simplified], simp_all)
qed

lemma total_snacks_first:
  "fadd 100 (7656119366529844 / 2 ^ 52) = 7156501282868429 / 2 ^ 46"
  unfolding fadd_def
  by (rule float64_frac [where m = 7156501282868429, simplified]) simp_all

lemma total_running:
  "fadd (fadd 100 (4953959590107546 / 2 ^ 52)) (5404319552844596 / 2 ^ 53)
     = 7156501282868428 / 2 ^ 46"
proof -
  have "fadd 100 (4953959590107546 / 2 ^ 52) = 7114280036361830 / 2 ^ 46"
    unfolding fadd_def
    by (rule float64_frac [where m = 7114280036361830, simplified]) simp_all
  then show ?thesis
    unfolding fadd_def
    by (simp only:) (rule float64_frac [where m = 7156501282868428, simplified], simp_all)
qed

lemma hours_one: "Hours 3600000000000 = 1"
  by (simp add: Hours_def units float_eval)

lemma fmul_100_1: "fmul 100 1 = 100"
  by (simp add: float_eval)

lemmas small_ints = float64_of_int_def float64_numeral float64_1

lemma cents_create:
  "map_sum id cr_TotalCost (fst (CreateReservation env_0 req_cents db_cents))
     = Inr (7156501282868429 / 2 ^ 46)"
proof -
  have "map_sum id cr_TotalCost (fst (CreateReservation env_0 req_cents db_cents))
     = Inr (fadd (fmul 100 1)
                 (fadd (fadd 0 (fmul (float64 (11 / 10)) 1)) (fmul (float64 (1 / 5)) 3)))"
    by (simp add: unfold_create_folded example_defs tea_def biscuit_def db_cents_def
                  req_cents_def units hours_one small_ints)
  then show ?thesis
    unfolding tea_subtotal biscuit_subtotal fmul_100_1 snacks_first total_snacks_first .
qed

lemma cents_calc:
  "map_sum id calc_TotalCost (CalculateReservationCost env_0 (calc_of req_cents) db_cents)
     = Inr (7156501282868428 / 2 ^ 46)"
proof -
  have "map_sum id calc_TotalCost (CalculateReservationCost env_0 (calc_of req_cents) db_cents)
     = Inr (fadd (fadd (fmul 100 1) (fmul (float64 (11 / 10)) 1)) (fmul (float64 (1 / 5)) 3))"
    by (simp add: unfold_calc_folded calc_of_def example_defs tea_def biscuit_def db_cents_def
                  req_cents_def units hours_one small_ints)
  then show ?thesis
    unfolding tea_subtotal biscuit_subtotal fmul_100_1 total_running .
qed

text \<open>
  C3 (as the code has it). For a request that passes the time validation, names
  an available room, stays within its capacity and conflicts with no stored
  reservation, whose snack lines name pairwise different snacks, and with no
  failing database call: creation succeeds and the returned total is, in
  \<^verbatim>\<open>float64\<close> arithmetic, the room's hourly price times \<open>E - S\<close> in hours plus the sum of
  catalog price times quantity over the requested lines (taken in catalog order
  from zero; a line for a snack the catalog does not have is left out).
  CalculateReservationCost succeeds on the same room, interval and lines and
  returns the same room cost with the same line subtotals added to it one after
  the other; with at most one priced line that is the same total.
\<close>

theorem total_cost_formula:
  assumes "no_fault ev" and "\<not> time_violation (now ev) (StartTime req) (EndTime req)"
    and "available_room db (RoomID req) = Some rm" and "VisitorCount req \<le> room_capacity rm"
    and "valid_time_range db"
    and "\<forall>r. \<not> conflicting db (RoomID req) (StartTime req) (EndTime req) r"
    and "distinct (map SnackID (Snacks req))"
  shows "\<exists>resp db' cresp.
           CreateReservation ev req db = (Inr resp, db')
           \<and> cr_TotalCost resp
               = spec_total_cost db (room_price_per_hour rm) (StartTime req) (EndTime req)
                   (Snacks req)
           \<and> CalculateReservationCost ev (calc_of req) db = Inr cresp
           \<and> calc_TotalCost cresp
               = running_total_cost db (room_price_per_hour rm) (StartTime req) (EndTime req)
                   (Snacks req)
           \<and> (length (priced_lines db (Snacks req)) \<le> 1 \<longrightarrow>
                 calc_TotalCost cresp = cr_TotalCost resp)"
proof -
  let ?S = "StartTime req" and ?E = "EndTime req"
  have z: "overlappingCount db (RoomID req) ?S ?E = 0"
    using no_conflict_count_0 [OF assms(5) time_ok_checks(6) [OF assms(2)] assms(6)] .
  have "CreateReservation ev req db = create_rows ev req db (room_price_per_hour rm)"
    using CreateReservation_checked [OF assms(1-4)] z by simp
  moreover obtain resp db' where
    c: "create_rows ev req db (room_price_per_hour rm) = (Inr resp, db')"
    using create_rows_no_fault [OF assms(1)] by blast
  ultimately have cr: "CreateReservation ev req db = (Inr resp, db')" by simp
  from create_rows_ok [OF c]
  have "cr_TotalCost resp = fadd (fmul (room_price_per_hour rm) (Hours (Sub ?E ?S)))
          (fst (order_snacks (Snacks req) (select_snacks db (Snacks req)) (0, [])))"
    by simp
  then have total: "cr_TotalCost resp
      = spec_total_cost db (room_price_per_hour rm) ?S ?E (Snacks req)"
    by (simp add: spec_total_cost_def room_cost_of_def Hours_exact [OF assms(2)]
                  snack_total_formula [OF assms(7)])
  from CalculateReservationCost_checked [of ev "calc_of req" db rm] assms(1-3)
  obtain cresp where cc: "CalculateReservationCost ev (calc_of req) db = Inr cresp"
    and ct: "calc_TotalCost cresp
               = foldl fadd (fmul (room_price_per_hour rm) (Hours (Sub ?E ?S)))
                   (concat (map (row_subtotals (Snacks req)) (snacks db)))"
    by (auto simp: calc_of_def)
  from ct have running: "calc_TotalCost cresp
      = running_total_cost db (room_price_per_hour rm) ?S ?E (Snacks req)"
    by (simp add: running_total_cost_def room_cost_of_def Hours_exact [OF assms(2)]
                  rows_subtotals_eq_lines [OF assms(7)])
  have "calc_TotalCost cresp = cr_TotalCost resp"
    if "length (priced_lines db (Snacks req)) \<le> 1"
    using one_line_same_total [OF that]
    by (simp add: total running spec_total_cost_def running_total_cost_def)
  with cr total cc running show ?thesis by blast
qed


theorem total_cost_formula_witness:
  "no_fault env_0
   \<and> \<not> time_violation (now env_0) (StartTime req_free) (EndTime req_free)
   \<and> available_room db_0 (RoomID req_free) = Some room_A
   \<and> VisitorCount req_free \<le> room_capacity room_A
   \<and> valid_time_range db_0
   \<and> \<not> (\<exists>r. conflicting db_0 (RoomID req_free) (StartTime req_free) (EndTime req_free) r)
   \<and> distinct (map SnackID (Snacks req_free))
   \<and> CreateReservation env_0 req_free db_0 = (Inr resp_free, db_1)
   \<and> cr_TotalCost resp_free = 222
   \<and> spec_total_cost db_0 (room_price_per_hour room_A) (StartTime req_free) (EndTime req_free)
        (Snacks req_free) = 222
   \<and> CalculateReservationCost env_0 (calc_of req_free) db_0 = Inr calc_resp_free
   \<and> calc_TotalCost calc_resp_free = 222
   \<and> length (priced_lines db_0 (Snacks req_one)) = 1
   \<and> fst (CreateReservation env_0 req_one db_0) = Inr resp_one
   \<and> cr_TotalCost resp_one = 210
   \<and> map_sum id calc_TotalCost (CalculateReservationCost env_0 (calc_of req_one) db_0)
       = Inr 210"
proof -
  have h: "no_fault env_0"
      "\<not> time_violation (now env_0) (StartTime req_free) (EndTime req_free)"
      "available_room db_0 (RoomID req_free) = Some room_A"
      "VisitorCount req_free \<le> room_capacity room_A"
    by (simp_all add: no_fault_def failed_def time_violation_def available_room_def
                      example_defs units)
  have v: "valid_time_range db_0"
    by (simp add: valid_time_range_def example_defs units)
  have n: "\<forall>r. \<not> conflicting db_0 (RoomID req_free) (StartTime req_free) (EndTime req_free) r"
    by (simp add: conflicting_def spec_conflict_def example_defs units)
  have d: "distinct (map SnackID (Snacks req_free))"
    by (simp add: example_defs)
  have e: "calc_of req_free = calc_free"
    by (simp add: calc_of_def example_defs)
  from total_cost_formula [OF h v n d] create_free calc_free_cost
  have "cr_TotalCost resp_free
          = spec_total_cost db_0 (room_price_per_hour room_A) (StartTime req_free)
              (EndTime req_free) (Snacks req_free)"
    by (auto simp: e)
  moreover have "cr_TotalCost resp_free = 222" "calc_TotalCost calc_resp_free = 222"
    by (simp_all add: example_defs)
  moreover have "cr_TotalCost resp_one = 210" by (simp add: resp_one_def)
  ultimately show ?thesis
    using h v n d create_free calc_free_cost one_priced one_cost one_calc by (simp add: e)
qed

text \<open>
  Two instances against C3 as stated, both for requests that pass validation and
  conflict with nothing.

  \<open>req_twice\<close> orders coffee (5 a cup) on two lines, one cup and two cups. The sum
  over the requested lines is 15 and the total would be 215; the loop takes the
  first line that names the snack and leaves the second out, so the total is 205.

  \<open>req_cents\<close> orders one tea at 1.10 and three biscuits at 0.20 for one hour at
  100. Creation adds the subtotals from zero and then the room cost, and returns
  the \<^verbatim>\<open>float64\<close> that prints as 101.7; the calculation adds them to the room cost one
  after the other and returns the next \<^verbatim>\<open>float64\<close> below, 101.69999999999999.
\<close>

theorem total_cost_counterexample:
  "\<not> time_violation (now env_0) (StartTime req_twice) (EndTime req_twice)
   \<and> available_room db_0 (RoomID req_twice) = Some room_A
   \<and> VisitorCount req_twice \<le> room_capacity room_A
   \<and> reservations db_0 = [booking_1]
   \<and> \<not> conflicting db_0 (RoomID req_twice) (StartTime req_twice) (EndTime req_twice) booking_1
   \<and> fst (CreateReservation env_0 req_twice db_0) = Inr resp_twice
   \<and> cr_TotalCost resp_twice = 205
   \<and> spec_total_cost db_0 (room_price_per_hour room_A) (StartTime req_twice)
        (EndTime req_twice) (Snacks req_twice) = 215
   \<and> \<not> time_violation (now env_0) (StartTime req_cents) (EndTime req_cents)
   \<and> available_room db_cents (RoomID req_cents) = Some room_A
   \<and> VisitorCount req_cents \<le> room_capacity room_A
   \<and> reservations db_cents = [booking_1]
   \<and> \<not> conflicting db_cents (RoomID req_cents) (StartTime req_cents) (EndTime req_cents)
         booking_1
   \<and> distinct (map SnackID (Snacks req_cents))
   \<and> map_sum id cr_TotalCost (fst (CreateReservation env_0 req_cents db_cents))
       = Inr (7156501282868429 / 2 ^ 46)
   \<and> map_sum id calc_TotalCost (CalculateReservationCost env_0 (calc_of req_cents) db_cents)
       = Inr (7156501282868428 / 2 ^ 46)"
proof -
  have a: "\<not> time_violation (now env_0) (StartTime req_twice) (EndTime req_twice)"
      "available_room db_0 (RoomID req_twice) = Some room_A"
      "VisitorCount req_twice \<le> room_capacity room_A"
      "reservations db_0 = [booking_1]"
      "\<not> conflicting db_0 (RoomID req_twice) (StartTime req_twice) (EndTime req_twice)
          booking_1"
      "cr_TotalCost resp_twice = 205"
    by (simp_all add: time_violation_def available_room_def conflicting_def spec_conflict_def
                      example_defs req_twice_def resp_twice_def units)
  have b: "\<not> time_violation (now env_0) (StartTime req_cents) (EndTime req_cents)"
      "available_room db_cents (RoomID req_cents) = Some room_A"
      "VisitorCount req_cents \<le> room_capacity room_A"
      "reservations db_cents = [booking_1]"
      "\<not> conflicting db_cents (RoomID req_cents) (StartTime req_cents) (EndTime req_cents)
          booking_1"
      "distinct (map SnackID (Snacks req_cents))"
    by (simp_all add: time_violation_def available_room_def conflicting_def spec_conflict_def
                      example_defs db_cents_def req_cents_def units)
  from a b twice_cost twice_spec cents_create cents_calc show ?thesis by blast
qed

end
